theory Spec2Isabelle
  imports Complex_Main "HOL-Library.Word"
begin

section \<open>seispy/image.py: SW4 image files as Image and Patch objects\<close>

text \<open>
  The development follows \<^verbatim>\<open>src/seispy/image.py\<close>: the class \<^verbatim>\<open>Image\<close>
  (constructor, \<^verbatim>\<open>_read_header\<close>, \<^verbatim>\<open>_read_patches\<close> and the properties),
  the class \<^verbatim>\<open>Patch\<close> (\<^verbatim>\<open>_set_header\<close>, \<^verbatim>\<open>_set_data\<close>) and the
  function \<^verbatim>\<open>read_SW4_image\<close>. Plotting and the movie driver are not modelled.

  Conventions. A Python exception is a value \<open>Inl e\<close> of a sum type, a normal return is
  \<open>Inr v\<close>. Python's \<^verbatim>\<open>None\<close> is \<open>None\<close> of an option type. Warnings and file
  opens are collected in an event log that the functions return. Floating point is
  idealised as real arithmetic: the fields \<^verbatim>\<open>h\<close>, \<^verbatim>\<open>zmin\<close>, \<^verbatim>\<open>time\<close>
  and \<^verbatim>\<open>coordinate\<close> are reals, and so are the statistics of a patch. The samples
  of a patch are kept as their stored bytes; the number a sample stands for is given by a
  function \<open>val\<close> from the stored bytes to the reals, a parameter of the reader.
\<close>

subsection \<open>Errors and events\<close>

type_synonym byte = "8 word"

text \<open>The three places that raise \<^verbatim>\<open>ValueError\<close>: the constructor of Image (with
  the value it printed), numpy's \<^verbatim>\<open>reshape\<close>, and numpy's \<^verbatim>\<open>min\<close> on an array
  without elements.\<close>

datatype value_error =
    Unrecognized_source_time_function_type "string option"
  | Cannot_reshape
  | Zero_size_reduction

datatype error =
    ValueError value_error
  | KeyError
  | IndexError
  | AttributeError
  | TypeError
  | IOError

text \<open>The events: the two warnings, the image file opened by
  \<^verbatim>\<open>read_SW4_image\<close>, and the input file read by \<^verbatim>\<open>read_input_file\<close>.\<close>

datatype event =
    Overriding_warning string string
  | Uncommon_extension_warning string
  | Opened string
  | Input_file_read string

subsection \<open>numpy: fromfile, reshape, transpose\<close>

text \<open>A dtype is the width of one item and the way its bytes unpack.\<close>

record 'a dtype =
  itemsize :: nat
  unpack :: "byte list \<Rightarrow> 'a"

text \<open>
  \<^verbatim>\<open>np.fromfile(f, dtype, count)\<close> on a binary file. The stream is the list of the
  bytes from the cursor on. A negative count reads every complete item that is left. A
  count beyond what the file holds is no error: the array is cut to the complete items
  read, and the cursor stands at the end of the file. The result is the array and the
  rest of the stream.
\<close>

definition fromfile :: "byte list \<Rightarrow> 'a dtype \<Rightarrow> int \<Rightarrow> 'a list \<times> byte list" where
  "fromfile f dt count =
     (let avail = length f div itemsize dt;
          num = (if count < 0 then avail else nat count);
          nread = min num avail
      in (map (\<lambda>i. unpack dt (take (itemsize dt) (drop (i * itemsize dt) f))) [0..<nread],
          if nread < num then [] else drop (nread * itemsize dt) f))"

text \<open>A two-dimensional array: its shape (rows, columns) and its items in row-major
  order.\<close>

record 'a ndarray =
  shape :: "nat \<times> nat"
  flat :: "'a list"


text \<open>
  \<^verbatim>\<open>data.reshape(r, c)\<close> of a one-dimensional array. A negative dimension (numpy
  documents \<open>-1\<close>) is the unknown one and is inferred from the size; two of them, or a
  size that does not fit, raise \<^verbatim>\<open>ValueError\<close>.
\<close>

definition reshape :: "'a list \<Rightarrow> int \<Rightarrow> int \<Rightarrow> error + 'a ndarray" where
  "reshape xs r c =
     (let k = int (length xs) in
      if r < 0 \<and> c < 0 then Inl (ValueError Cannot_reshape)
      else if r < 0 then
        (if c = 0 \<or> k mod c \<noteq> 0 then Inl (ValueError Cannot_reshape)
         else Inr \<lparr>shape = (nat (k div c), nat c), flat = xs\<rparr>)
      else if c < 0 then
        (if r = 0 \<or> k mod r \<noteq> 0 then Inl (ValueError Cannot_reshape)
         else Inr \<lparr>shape = (nat r, nat (k div r)), flat = xs\<rparr>)
      else if r * c \<noteq> k then Inl (ValueError Cannot_reshape)
      else Inr \<lparr>shape = (nat r, nat c), flat = xs\<rparr>)"

text \<open>\<^verbatim>\<open>data.T\<close>: the axes swapped, item \<open>(i, j)\<close> of the result is item \<open>(j, i)\<close>
  of the array.\<close>

definition T :: "'a ndarray \<Rightarrow> 'a ndarray" where
  "T a =
     (case shape a of (r, c) \<Rightarrow>
        \<lparr>shape = (c, r),
         flat = concat (map (\<lambda>i. map (\<lambda>j. flat a ! (j * c + i)) [0..<r]) [0..<c])\<rparr>)"

text \<open>The reductions of numpy over the items of an array, here the numbers of the
  samples. \<^verbatim>\<open>min\<close> and \<^verbatim>\<open>max\<close> raise \<^verbatim>\<open>ValueError\<close> on an array
  without items; \<^verbatim>\<open>std\<close> is \<^verbatim>\<open>sqrt(mean(abs(x - x.mean())**2))\<close>.\<close>

fun np_min :: "real list \<Rightarrow> error + real" where
  "np_min [] = Inl (ValueError Zero_size_reduction)"
| "np_min (x # xs) = Inr (fold min xs x)"

fun np_max :: "real list \<Rightarrow> error + real" where
  "np_max [] = Inl (ValueError Zero_size_reduction)"
| "np_max (x # xs) = Inr (fold max xs x)"

definition np_mean :: "real list \<Rightarrow> real" where
  "np_mean xs = sum_list xs / of_nat (length xs)"

definition np_std :: "real list \<Rightarrow> real" where
  "np_std xs = sqrt (np_mean (map (\<lambda>x. \<bar>x - np_mean xs\<bar> ^ 2) xs))"

subsection \<open>seispy.header and seispy.config\<close>

text \<open>
  The module \<^verbatim>\<open>seispy.header\<close> is not among the sources. Its record layouts
  \<^verbatim>\<open>SW4_IMAGE_HEADER_DTYPE\<close> and \<^verbatim>\<open>SW4_PATCH_HEADER_DTYPE\<close> and its table
  \<^verbatim>\<open>SW4_SOURCE_TIME_FUNCTION_TYPE\<close> are parameters of the functions below, and so
  is the function \<^verbatim>\<open>read_input_file\<close> of \<^verbatim>\<open>seispy.config\<close>. The
  records unpack to the tuples that the source takes apart: the image header to
  (precision, number of patches, time, plane, coordinate, mode, gridinfo, creation time),
  the patch header to (h, zmin, ib, ni, jb, nj). Integer fields are unbounded integers.
\<close>

type_synonym image_header = "int \<times> int \<times> real \<times> int \<times> real \<times> int \<times> int \<times> byte list"
type_synonym patch_header = "real \<times> real \<times> int \<times> int \<times> int \<times> int"
type_synonym sample = "byte list"

datatype mode_table = SW4_IMAGE_MODE_DISPLACEMENT | SW4_IMAGE_MODE_VELOCITY

definition float32 :: "sample dtype" where
  "float32 = \<lparr>itemsize = 4, unpack = (\<lambda>bs. bs)\<rparr>"

definition float64 :: "sample dtype" where
  "float64 = \<lparr>itemsize = 8, unpack = (\<lambda>bs. bs)\<rparr>"

text \<open>Modelled from the spec: the table \<^verbatim>\<open>SW4_IMAGE_PRECISION\<close> of
  \<^verbatim>\<open>seispy.header\<close>, which is not among the sources. The precision code resolves to
  a known byte width, 4 or 8 (4-byte or 8-byte floating point).\<close>

definition SW4_IMAGE_PRECISION :: "int \<rightharpoonup> sample dtype" where
  "SW4_IMAGE_PRECISION = [4 \<mapsto> float32, 8 \<mapsto> float64]"

text \<open>A parsed configuration is an \<^verbatim>\<open>AttribDict\<close>: keys with lists of items. An
  item has coordinates and, for a source, the name of its time function. An empty
  dictionary is false in a condition.\<close>

record config_item =
  item_x :: real
  item_y :: real
  item_z :: real
  item_type :: string

type_synonym config = "(string \<times> config_item list) list"

definition truthy :: "config option \<Rightarrow> bool" where
  "truthy cfg = (case cfg of None \<Rightarrow> False | Some c \<Rightarrow> c \<noteq> [])"

text \<open>
  The argument \<^verbatim>\<open>config\<close> of the constructor is \<^verbatim>\<open>None\<close>, an
  \<^verbatim>\<open>AttribDict\<close>, or anything else, which the constructor hands to
  \<^verbatim>\<open>read_input_file\<close>: the path of an input file. \<open>parse_config\<close> is what the
  first two lines of the constructor do with it; \<^verbatim>\<open>read_input_file\<close> reads the file
  at the path and returns the parsed configuration, or raises.
\<close>

datatype config_arg = AttribDict config | Path string

definition parse_config ::
    "(string \<Rightarrow> error + config) \<Rightarrow> config_arg option \<Rightarrow> error + config option \<times> event list" where
  "parse_config read_input_file carg =
     (case carg of
        None \<Rightarrow> Inr (None, [])
      | Some (AttribDict c) \<Rightarrow> Inr (Some c, [])
      | Some (Path p) \<Rightarrow>
          (case read_input_file p of
             Inl e \<Rightarrow> Inl e
           | Inr c \<Rightarrow> Inr (Some c, [Input_file_read p])))"

subsection \<open>Patch and Image\<close>

record patch =
  number :: "nat option"
  h :: "real option"
  zmin :: "real option"
  ib :: "int option"
  ni :: "int option"
  jb :: "int option"
  nj :: "int option"
  data :: "sample ndarray option"
  extent :: "(real \<times> real \<times> real \<times> real) option"
  patch_min :: "real option"
  patch_max :: "real option"
  patch_std :: "real option"
  patch_rms :: "real option"

text \<open>\<open>patch_min\<close>, \<open>patch_max\<close>, \<open>patch_std\<close> and \<open>patch_rms\<close> are the
  attributes \<^verbatim>\<open>min\<close>, \<^verbatim>\<open>max\<close>, \<^verbatim>\<open>std\<close> and \<^verbatim>\<open>rms\<close>, which a
  patch has once its data are set.

  The fields of Image; \<open>precision_code\<close>, \<open>number_of_patches_code\<close>,
  \<open>plane_code\<close>, \<open>mode_code\<close>, \<open>config\<close> and \<open>mode_dict\<close> are the attributes
  \<^verbatim>\<open>_precision\<close>, \<^verbatim>\<open>_number_of_patches\<close>, \<^verbatim>\<open>_plane\<close>, \<^verbatim>\<open>_mode\<close>,
  \<^verbatim>\<open>_config\<close> and \<^verbatim>\<open>_mode_dict\<close>. A patch's link back to its image is not
  stored: \<open>Patch_set_data\<close> takes the image as an argument.\<close>

record image =
  patches :: "patch list"
  config :: "config option"
  mode_dict :: "mode_table option"
  filename :: "string option"
  precision_code :: "int option"
  number_of_patches_code :: "int option"
  time :: "real option"
  plane_code :: "int option"
  coordinate :: "real option"
  mode_code :: "int option"
  gridinfo :: "int option"
  creation_time :: "byte list option"

subsubsection \<open>Properties of Image\<close>

definition Image_is_cross_section :: "image \<Rightarrow> error + bool option" where
  "Image_is_cross_section self =
     (if plane_code self = Some 0 \<or> plane_code self = Some 1 then Inr (Some True)
      else if plane_code self = Some 2 then Inr (Some False)
      else Inr None)"

definition Image_type :: "image \<Rightarrow> error + string" where
  "Image_type self =
     (case Image_is_cross_section self of
        Inl e \<Rightarrow> Inl e
      | Inr b \<Rightarrow> if b = Some True then Inr ''cross-section'' else Inr ''map'')"

definition Image_source_time_function_type ::
    "(string \<rightharpoonup> int) \<Rightarrow> image \<Rightarrow> error + string option" where
  "Image_source_time_function_type stf_table self =
     (if \<not> truthy (config self) then Inr None
      else
        (case map_of (the (config self)) ''source'' of
           None \<Rightarrow> Inl AttributeError
         | Some [] \<Rightarrow> Inl IndexError
         | Some (s # _) \<Rightarrow>
             (case stf_table (item_type s) of
                None \<Rightarrow> Inl KeyError
              | Some stf_type \<Rightarrow>
                  Inr ([0 \<mapsto> ''displacement'', 1 \<mapsto> ''velocity''] stf_type))))"

definition Image_number_of_patches :: "image \<Rightarrow> nat" where
  "Image_number_of_patches self = length (patches self)"

definition Image_precision :: "image \<Rightarrow> error + sample dtype" where
  "Image_precision self =
     (case precision_code self of
        None \<Rightarrow> Inl KeyError
      | Some c \<Rightarrow>
          (case SW4_IMAGE_PRECISION c of None \<Rightarrow> Inl KeyError | Some dt \<Rightarrow> Inr dt))"

subsubsection \<open>The constructor of Image\<close>

text \<open>The object as the constructor leaves it when it does not raise, but for
  \<^verbatim>\<open>_mode_dict\<close>: no patches, the configuration, and every header field unset.\<close>

definition new_image :: "config option \<Rightarrow> image" where
  "new_image cfg =
     \<lparr>patches = [], config = cfg, mode_dict = None, filename = None,
      precision_code = None, number_of_patches_code = None, time = None,
      plane_code = None, coordinate = None, mode_code = None, gridinfo = None,
      creation_time = None\<rparr>"

definition Image_init ::
    "(string \<Rightarrow> error + config) \<Rightarrow> (string \<rightharpoonup> int) \<Rightarrow> config_arg option \<Rightarrow> string option \<Rightarrow>
     error + image \<times> event list" where
  "Image_init read_input_file stf_table carg source_time_function_type =
     (case parse_config read_input_file carg of
        Inl e \<Rightarrow> Inl e
      | Inr (cfg, evs0) \<Rightarrow>
          (let self = new_image cfg in
           case (if truthy cfg
                 then (case Image_source_time_function_type stf_table self of
                         Inl e \<Rightarrow> Inl e
                       | Inr stf' \<Rightarrow>
                           Inr (stf',
                                (case (source_time_function_type, stf') of
                                   (Some a, Some b) \<Rightarrow>
                                     if a \<noteq> [] \<and> b \<noteq> [] \<and> a \<noteq> b
                                     then [Overriding_warning a b] else []
                                 | _ \<Rightarrow> [])))
                 else Inr (source_time_function_type, []))
           of
             Inl e \<Rightarrow> Inl e
           | Inr (stf, evs) \<Rightarrow>
               if stf = Some ''displacement''
               then Inr (self\<lparr>mode_dict := Some SW4_IMAGE_MODE_DISPLACEMENT\<rparr>, evs0 @ evs)
               else if stf = Some ''velocity''
               then Inr (self\<lparr>mode_dict := Some SW4_IMAGE_MODE_VELOCITY\<rparr>, evs0 @ evs)
               else Inl (ValueError (Unrecognized_source_time_function_type stf))))"

subsubsection \<open>Reading the header\<close>

text \<open>\<^verbatim>\<open>np.fromfile(f, SW4_IMAGE_HEADER_DTYPE, 1)[0]\<close>: the index raises
  \<^verbatim>\<open>IndexError\<close> when the file is too short for one record.\<close>

definition Image_read_header ::
    "image_header dtype \<Rightarrow> image \<Rightarrow> byte list \<Rightarrow> error + image \<times> byte list" where
  "Image_read_header hdt self f =
     (case fromfile f hdt 1 of
        ([], _) \<Rightarrow> Inl IndexError
      | (header # _, f') \<Rightarrow>
          (case header of
             (precision, number_of_patches, t, plane, coord, mode, ginfo, ctime) \<Rightarrow>
               Inr (self\<lparr>precision_code := Some precision,
                         number_of_patches_code := Some number_of_patches,
                         time := Some t,
                         plane_code := Some plane,
                         coordinate := Some coord,
                         mode_code := Some mode,
                         gridinfo := Some ginfo,
                         creation_time := Some ctime\<rparr>, f')))"

subsubsection \<open>Patch\<close>

definition Patch_init :: "nat option \<Rightarrow> patch" where
  "Patch_init num =
     \<lparr>number = num, h = None, zmin = None, ib = None, ni = None, jb = None, nj = None,
      data = None, extent = None, patch_min = None, patch_max = None, patch_std = None,
      patch_rms = None\<rparr>"

definition Patch_set_header :: "patch \<Rightarrow> patch_header \<Rightarrow> patch" where
  "Patch_set_header self header =
     (case header of
        (hh, zz, ibb, nii, jbb, njj) \<Rightarrow>
          self\<lparr>h := Some hh, zmin := Some zz, ib := Some ibb, ni := Some nii,
               jb := Some jbb, nj := Some njj\<rparr>)"

text \<open>
  \<^verbatim>\<open>_set_data\<close>. The statistics are taken over the array as it was handed in,
  before the transposition; \<^verbatim>\<open>data.min()\<close>, the first of them, raises
  \<^verbatim>\<open>ValueError\<close> on an array without items. Arithmetic on a field that is still
  \<^verbatim>\<open>None\<close> raises \<^verbatim>\<open>TypeError\<close>.
\<close>

definition Patch_set_data ::
    "(sample \<Rightarrow> real) \<Rightarrow> patch \<Rightarrow> image \<Rightarrow> sample ndarray \<Rightarrow> error + patch" where
  "Patch_set_data val self img arr =
     (case Image_is_cross_section img of
        Inl e \<Rightarrow> Inl e
      | Inr b \<Rightarrow>
          (case (h self, zmin self, ni self, nj self) of
             (Some hh, Some zz, Some nii, Some njj) \<Rightarrow>
               (let self' =
                  (if b = Some True
                   then self\<lparr>data := Some arr,
                             extent := Some (0 - hh / 2,
                                             of_int (nii - 1) * hh + hh / 2,
                                             zz - hh / 2,
                                             zz + of_int (njj - 1) * hh + hh / 2)\<rparr>
                   else self\<lparr>data := Some (T arr),
                             extent := Some (0 - hh / 2,
                                             of_int (njj - 1) * hh + hh / 2,
                                             0 - hh / 2,
                                             of_int (nii - 1) * hh + hh / 2)\<rparr>);
                    xs = map val (flat arr)
                in case np_min xs of
                     Inl e \<Rightarrow> Inl e
                   | Inr mn \<Rightarrow>
                       (case np_max xs of
                          Inl e \<Rightarrow> Inl e
                        | Inr mx \<Rightarrow>
                            Inr (self'\<lparr>patch_min := Some mn, patch_max := Some mx,
                                       patch_std := Some (np_std xs),
                                       patch_rms :=
                                         Some (sqrt (np_mean (map (\<lambda>x. x ^ 2) xs)))\<rparr>)))
           | _ \<Rightarrow> Inl TypeError))"

subsubsection \<open>Reading the patches\<close>

text \<open>One turn of the loop of \<^verbatim>\<open>_read_patches\<close>: the patch with its number and
  header, its sample block read at the precision of the image and reshaped to \<open>nj\<close> rows
  of \<open>ni\<close> columns, and the data set. The precision is looked up here, at the sample
  block, and nowhere before. The result is the patch and the rest of the stream.\<close>

definition read_patch ::
    "(sample \<Rightarrow> real) \<Rightarrow> image \<Rightarrow> nat \<times> patch_header \<Rightarrow> byte list \<Rightarrow>
     error + patch \<times> byte list" where
  "read_patch val self ih f =
     (case ih of
        (i, header) \<Rightarrow>
          (let p = Patch_set_header (Patch_init (Some i)) header in
           case Image_precision self of
             Inl e \<Rightarrow> Inl e
           | Inr dt \<Rightarrow>
               (case (ni p, nj p) of
                  (Some nii, Some njj) \<Rightarrow>
                    (case fromfile f dt (nii * njj) of
                       (raw, f') \<Rightarrow>
                         (case reshape raw njj nii of
                            Inl e \<Rightarrow> Inl e
                          | Inr arr \<Rightarrow>
                              (case Patch_set_data val p self arr of
                                 Inl e \<Rightarrow> Inl e
                               | Inr p' \<Rightarrow> Inr (p', f'))))
                | _ \<Rightarrow> Inl TypeError)))"

text \<open>The loop over the enumerated patch headers: every patch is appended to
  \<^verbatim>\<open>self.patches\<close>; the first exception ends the loop.\<close>

fun read_patches_loop ::
    "(sample \<Rightarrow> real) \<Rightarrow> image \<Rightarrow> (nat \<times> patch_header) list \<Rightarrow> byte list \<Rightarrow>
     error + image \<times> byte list" where
  "read_patches_loop val self [] f = Inr (self, f)"
| "read_patches_loop val self (ih # rest) f =
     (case read_patch val self ih f of
        Inl e \<Rightarrow> Inl e
      | Inr (p', f') \<Rightarrow>
          read_patches_loop val (self\<lparr>patches := patches self @ [p']\<rparr>) rest f')"

definition Image_read_patches ::
    "(sample \<Rightarrow> real) \<Rightarrow> patch_header dtype \<Rightarrow> image \<Rightarrow> byte list \<Rightarrow>
     error + image \<times> byte list" where
  "Image_read_patches val pdt self f =
     (case number_of_patches_code self of
        None \<Rightarrow> Inl TypeError
      | Some n \<Rightarrow>
          (case fromfile f pdt n of
             (patch_info, f') \<Rightarrow> read_patches_loop val self (enumerate 0 patch_info) f'))"

subsection \<open>The function \<^verbatim>\<open>read_SW4_image\<close>\<close>

definition endswith :: "string \<Rightarrow> string \<Rightarrow> bool" where
  "endswith s suf = (length suf \<le> length s \<and> drop (length s - length suf) s = suf)"

text \<open>The random image: \<open>rnd\<close> stands for the items of the array
  \<^verbatim>\<open>2 * (np.random.rand(100, 200) - 0.5)\<close>. The attributes \<^verbatim>\<open>cycle\<close>,
  \<^verbatim>\<open>min\<close>, \<^verbatim>\<open>max\<close>, \<^verbatim>\<open>std\<close> and \<^verbatim>\<open>rms\<close> that only this image
  (not its patch) gets are not represented.\<close>

definition create_random_SW4_patch :: "(sample \<Rightarrow> real) \<Rightarrow> sample list \<Rightarrow> error + patch" where
  "create_random_SW4_patch val rnd =
     (let xs = map val rnd in
      case np_min xs of
        Inl e \<Rightarrow> Inl e
      | Inr mn \<Rightarrow>
          (case np_max xs of
             Inl e \<Rightarrow> Inl e
           | Inr mx \<Rightarrow>
               Inr \<lparr>number = Some 0, h = Some 100, zmin = Some 0, ib = Some 1,
                    ni = Some 100, jb = Some 1, nj = Some 200,
                    data = Some \<lparr>shape = (100, 200), flat = rnd\<rparr>,
                    extent = Some (0, 200 * 100, 0 + 100 * 100, 0),
                    patch_min = Some mn, patch_max = Some mx,
                    patch_std = Some (np_std xs),
                    patch_rms = Some (sqrt (np_mean (map (\<lambda>x. x ^ 2) xs)))\<rparr>))"

definition create_random_SW4_image ::
    "(string \<Rightarrow> error + config) \<Rightarrow> (string \<rightharpoonup> int) \<Rightarrow> (sample \<Rightarrow> real) \<Rightarrow> sample list \<Rightarrow>
     string option \<Rightarrow> error + image \<times> event list" where
  "create_random_SW4_image read_input_file stf_table val rnd source_time_function_type =
     (case Image_init read_input_file stf_table None source_time_function_type of
        Inl e \<Rightarrow> Inl e
      | Inr (img, evs) \<Rightarrow>
          (case create_random_SW4_patch val rnd of
             Inl e \<Rightarrow> Inl e
           | Inr p \<Rightarrow>
               Inr (img\<lparr>filename := None, number_of_patches_code := Some 1,
                        precision_code := Some 4, time := Some 0,
                        patches := [p]\<rparr>, evs)))"

text \<open>
  \<open>fs\<close> is the file system: the bytes of the file at a path, or nothing when it cannot
  be opened. The result is the image and the events (warnings, files read) in order.
  The test \<^verbatim>\<open>filename is 'random'\<close> is taken as equality with the default value.
\<close>

definition read_SW4_image ::
    "(string \<Rightarrow> error + config) \<Rightarrow> (string \<rightharpoonup> int) \<Rightarrow> image_header dtype \<Rightarrow>
     patch_header dtype \<Rightarrow> (string \<rightharpoonup> byte list) \<Rightarrow> (sample \<Rightarrow> real) \<Rightarrow> sample list \<Rightarrow>
     string option \<Rightarrow> config_arg option \<Rightarrow> string option \<Rightarrow>
     error + image \<times> event list" where
  "read_SW4_image read_input_file stf_table hdt pdt fs val rnd fname carg
       source_time_function_type =
     (case Image_init read_input_file stf_table carg source_time_function_type of
        Inl e \<Rightarrow> Inl e
      | Inr (img0, evs) \<Rightarrow>
          (let img = img0\<lparr>filename := fname\<rparr> in
           if fname = Some ''random''
           then (case create_random_SW4_image read_input_file stf_table val rnd
                        source_time_function_type of
                   Inl e \<Rightarrow> Inl e
                 | Inr (img', evs') \<Rightarrow> Inr (img', evs @ evs'))
           else
             (case fname of
                None \<Rightarrow> Inr (img, evs)
              | Some name \<Rightarrow>
                  (let evs1 = evs @ (if endswith name ''.sw4img'' then []
                                     else [Uncommon_extension_warning name])
                   in case fs name of
                        None \<Rightarrow> Inl IOError
                      | Some f \<Rightarrow>
                          (case Image_read_header hdt img f of
                             Inl e \<Rightarrow> Inl e
                           | Inr (img1, f1) \<Rightarrow>
                               (case Image_read_patches val pdt img1 f1 of
                                  Inl e \<Rightarrow> Inl e
                                | Inr (img2, f2) \<Rightarrow> Inr (img2, evs1 @ [Opened name])))))))"

subsection \<open>A stream that ends within a sample block\<close>

text \<open>
  The input condition of the claim about truncation, in the words of the specification:
  at some patch, fewer than \<open>ni * nj\<close> values at the precision of the image are left in
  the stream. The patches before it take their blocks from the stream as
  \<^verbatim>\<open>np.fromfile\<close> does.
\<close>

fun ends_in_sample_block :: "sample dtype \<Rightarrow> patch_header list \<Rightarrow> byte list \<Rightarrow> bool" where
  "ends_in_sample_block dt [] f = False"
| "ends_in_sample_block dt ((hh, zz, ibb, nii, jbb, njj) # rest) f =
     (int (length f div itemsize dt) < nii * njj
      \<or> ends_in_sample_block dt rest (snd (fromfile f dt (nii * njj))))"

subsection \<open>The sample block of a patch\<close>




subsection \<open>The statistics of a grid\<close>


subsection \<open>A layout to run the reader on explicit bytes\<close>

text \<open>
  The real field widths are fixed by \<^verbatim>\<open>seispy.header\<close>. To evaluate the functions
  on concrete streams, this layout stores every header field in one signed byte, in the
  order of the tuples above: eight bytes for the image header, six for a patch header.
  The table of source time functions knows three names, the number of a sample is its
  first byte, signed, and the one input file that can be read has one source.
\<close>

definition byte_image_header_dtype :: "image_header dtype" where
  "byte_image_header_dtype =
     \<lparr>itemsize = 8,
      unpack = (\<lambda>bs. (sint (bs ! 0), sint (bs ! 1), of_int (sint (bs ! 2)), sint (bs ! 3),
                      of_int (sint (bs ! 4)), sint (bs ! 5), sint (bs ! 6), drop 7 bs))\<rparr>"

definition byte_patch_header_dtype :: "patch_header dtype" where
  "byte_patch_header_dtype =
     \<lparr>itemsize = 6,
      unpack = (\<lambda>bs. (of_int (sint (bs ! 0)), of_int (sint (bs ! 1)), sint (bs ! 2),
                      sint (bs ! 3), sint (bs ! 4), sint (bs ! 5)))\<rparr>"

definition example_stf_table :: "string \<rightharpoonup> int" where
  "example_stf_table = [''GaussianInt'' \<mapsto> 0, ''Gaussian'' \<mapsto> 1, ''Dirac'' \<mapsto> 2]"

text \<open>A stream in this layout: 4-byte samples, one patch, time 0, the given plane code,
  coordinate 0, mode 1; the patch has \<open>h = 2\<close>, \<open>zmin = 5\<close>, \<open>ni = 3\<close>,
  \<open>nj = 2\<close>, and six samples follow, each of four equal bytes.\<close>

definition example_stream :: "byte \<Rightarrow> byte list" where
  "example_stream plane =
     [4, 1, 0, plane, 0, 1, 0, 0] @ [2, 5, 1, 3, 1, 2]
     @ [1, 1, 1, 1, 2, 2, 2, 2, 3, 3, 3, 3, 4, 4, 4, 4, 5, 5, 5, 5, 6, 6, 6, 6]"

text \<open>The same with two patches: the second has \<open>h = 1\<close>, \<open>zmin = 0\<close>,
  \<open>ni = 1\<close>, \<open>nj = 2\<close> and two samples.\<close>

definition example_stream_two :: "byte \<Rightarrow> byte list" where
  "example_stream_two plane =
     [4, 2, 0, plane, 0, 1, 0, 0] @ [2, 5, 1, 3, 1, 2] @ [1, 0, 1, 1, 1, 2]
     @ [1, 1, 1, 1, 2, 2, 2, 2, 3, 3, 3, 3, 4, 4, 4, 4, 5, 5, 5, 5, 6, 6, 6, 6]
     @ [7, 7, 7, 7, 9, 9, 9, 9]"

definition example_value :: "sample \<Rightarrow> real" where
  "example_value bs = (case bs of [] \<Rightarrow> 0 | b # _ \<Rightarrow> of_int (sint b))"

definition example_read_input_file :: "string \<Rightarrow> error + config" where
  "example_read_input_file p =
     (if p = ''run.in''
      then Inr [(''source'',
                 [\<lparr>item_x = 0, item_y = 0, item_z = 0, item_type = ''GaussianInt''\<rparr>])]
      else Inl IOError)"

section \<open>Properties\<close>

subsection \<open>The quantity kind chosen by the constructor\<close>

lemma derived_kind_cases:
  "Image_source_time_function_type tbl self = Inr (Some b) \<Longrightarrow>
     b = ''displacement'' \<or> b = ''velocity''"
  by (auto simp: Image_source_time_function_type_def split: if_splits option.splits list.splits)

lemma derived_kind_error:
  "Image_source_time_function_type tbl self = Inl e \<Longrightarrow> e \<noteq> ValueError v"
  by (auto simp: Image_source_time_function_type_def split: if_splits option.splits list.splits)

lemma parse_config_parsed [simp]:
  "parse_config rif None = Inr (None, [])"
  "parse_config rif (Some (AttribDict c)) = Inr (Some c, [])"
  by (simp_all add: parse_config_def)

text \<open>
  C1, as the code has it. \<open>cfg\<close> is the configuration after the first two lines of the
  constructor, and \<open>cevs\<close> the events of reading it: for no configuration and for an
  \<^verbatim>\<open>AttribDict\<close> that is the argument itself and no event. (1) With a configuration
  that is not empty, a kind found in it and a different explicit kind, the constructor
  takes the kind of the configuration and warns once. (2) The constructor raises the error
  of an unrecognized kind exactly when the kind in effect is neither displacement nor
  velocity; the kind in effect is what the configuration yields whenever the
  configuration is not empty, also when that is nothing, and the explicit argument
  otherwise. (3) Without a configuration, an explicit valid kind is enough to construct
  the image, with no warning.
\<close>

theorem Image_init_kind_selection:
  "(parse_config rif carg = Inr (cfg, cevs) \<and> truthy cfg
      \<and> Image_source_time_function_type tbl (new_image cfg) = Inr (Some b) \<and>
      stf = Some a \<and> a \<noteq> [] \<and> a \<noteq> b \<longrightarrow>
      Image_init rif tbl carg stf =
        Inr ((new_image cfg)\<lparr>mode_dict :=
               Some (if b = ''displacement'' then SW4_IMAGE_MODE_DISPLACEMENT
                     else SW4_IMAGE_MODE_VELOCITY)\<rparr>,
             cevs @ [Overriding_warning a b]))
   \<and> (parse_config rif carg = Inr (cfg, cevs) \<longrightarrow>
        ((\<exists>k. Image_init rif tbl carg stf
               = Inl (ValueError (Unrecognized_source_time_function_type k)))
         \<longleftrightarrow> (if truthy cfg
              then Image_source_time_function_type tbl (new_image cfg) = Inr None
              else stf \<noteq> Some ''displacement'' \<and> stf \<noteq> Some ''velocity'')))
   \<and> (parse_config rif carg = Inr (cfg, cevs) \<and> \<not> truthy cfg
        \<and> (stf = Some ''displacement'' \<or> stf = Some ''velocity'') \<longrightarrow>
        (\<exists>img. Image_init rif tbl carg stf = Inr (img, cevs)))"
proof (intro conjI impI)
  assume A: "parse_config rif carg = Inr (cfg, cevs) \<and> truthy cfg
      \<and> Image_source_time_function_type tbl (new_image cfg) = Inr (Some b) \<and>
      stf = Some a \<and> a \<noteq> [] \<and> a \<noteq> b"
  then have "b = ''displacement'' \<or> b = ''velocity''"
    using derived_kind_cases by blast
  with A show "Image_init rif tbl carg stf =
        Inr ((new_image cfg)\<lparr>mode_dict :=
               Some (if b = ''displacement'' then SW4_IMAGE_MODE_DISPLACEMENT
                     else SW4_IMAGE_MODE_VELOCITY)\<rparr>,
             cevs @ [Overriding_warning a b])"
    by (auto simp: Image_init_def)
next
  assume P: "parse_config rif carg = Inr (cfg, cevs)"
  show "(\<exists>k. Image_init rif tbl carg stf
               = Inl (ValueError (Unrecognized_source_time_function_type k)))
        \<longleftrightarrow> (if truthy cfg then Image_source_time_function_type tbl (new_image cfg) = Inr None
             else stf \<noteq> Some ''displacement'' \<and> stf \<noteq> Some ''velocity'')"
  proof (cases "truthy cfg")
    case False
    with P show ?thesis by (auto simp: Image_init_def)
  next
    case True
    show ?thesis
    proof (cases "Image_source_time_function_type tbl (new_image cfg)")
      case (Inl e)
      then have "e \<noteq> ValueError v" for v
        by (rule derived_kind_error)
      with Inl True P show ?thesis by (auto simp: Image_init_def)
    next
      case (Inr k)
      show ?thesis
      proof (cases k)
        case None
        with Inr True P show ?thesis by (auto simp: Image_init_def)
      next
        case (Some b)
        with Inr have "b = ''displacement'' \<or> b = ''velocity''"
          using derived_kind_cases by blast
        with Inr Some True P show ?thesis by (auto simp: Image_init_def)
      qed
    qed
  qed
next
  assume "parse_config rif carg = Inr (cfg, cevs) \<and> \<not> truthy cfg
        \<and> (stf = Some ''displacement'' \<or> stf = Some ''velocity'')"
  then show "\<exists>img. Image_init rif tbl carg stf = Inr (img, cevs)"
    by (auto simp: Image_init_def)
qed

theorem Image_init_kind_selection_witness:
  "Image_init example_read_input_file example_stf_table
     (Some (AttribDict
        [(''source'', [\<lparr>item_x = 0, item_y = 0, item_z = 0, item_type = ''Gaussian''\<rparr>])]))
     (Some ''displacement'')
   = Inr ((new_image
            (Some [(''source'',
                    [\<lparr>item_x = 0, item_y = 0, item_z = 0, item_type = ''Gaussian''\<rparr>])]))
          \<lparr>mode_dict := Some SW4_IMAGE_MODE_VELOCITY\<rparr>,
          [Overriding_warning ''displacement'' ''velocity''])
   \<and> (\<exists>k. Image_init example_read_input_file example_stf_table None None
            = Inl (ValueError (Unrecognized_source_time_function_type k)))
   \<and> (\<exists>img. Image_init example_read_input_file example_stf_table None (Some ''velocity'')
            = Inr (img, []))
   \<and> Image_init example_read_input_file example_stf_table (Some (Path ''run.in''))
        (Some ''velocity'')
      = Inr ((new_image
               (Some [(''source'',
                       [\<lparr>item_x = 0, item_y = 0, item_z = 0,
                         item_type = ''GaussianInt''\<rparr>])]))
             \<lparr>mode_dict := Some SW4_IMAGE_MODE_DISPLACEMENT\<rparr>,
             [Input_file_read ''run.in'', Overriding_warning ''velocity'' ''displacement''])"
proof -
  let ?c = "[(''source'',
              [\<lparr>item_x = 0, item_y = 0, item_z = 0, item_type = ''Gaussian''\<rparr>])]"
  let ?d = "[(''source'',
              [\<lparr>item_x = 0, item_y = 0, item_z = 0, item_type = ''GaussianInt''\<rparr>])]"
  have h1: "parse_config example_read_input_file (Some (AttribDict ?c)) = Inr (Some ?c, [])
      \<and> truthy (Some ?c) \<and>
      Image_source_time_function_type example_stf_table (new_image (Some ?c))
        = Inr (Some ''velocity'') \<and>
      Some ''displacement'' = Some ''displacement'' \<and> ''displacement'' \<noteq> [] \<and>
      ''displacement'' \<noteq> ''velocity''"
    by (simp add: truthy_def Image_source_time_function_type_def new_image_def
        example_stf_table_def)
  have h2: "parse_config example_read_input_file None = Inr (None, [])"
    "\<not> truthy None" "(None :: string option) \<noteq> Some ''displacement''"
    "(None :: string option) \<noteq> Some ''velocity''"
    by (simp_all add: truthy_def)
  have h3: "parse_config example_read_input_file None = Inr (None, []) \<and> \<not> truthy None \<and>
      (Some ''velocity'' = Some ''displacement'' \<or> Some ''velocity'' = Some ''velocity'')"
    by (simp add: truthy_def)
  have h4: "parse_config example_read_input_file (Some (Path ''run.in''))
        = Inr (Some ?d, [Input_file_read ''run.in''])
      \<and> truthy (Some ?d) \<and>
      Image_source_time_function_type example_stf_table (new_image (Some ?d))
        = Inr (Some ''displacement'') \<and>
      Some ''velocity'' = Some ''velocity'' \<and> ''velocity'' \<noteq> [] \<and>
      ''velocity'' \<noteq> ''displacement''"
    by (simp add: truthy_def Image_source_time_function_type_def new_image_def
        example_stf_table_def parse_config_def example_read_input_file_def)
  from Image_init_kind_selection [where rif = example_read_input_file
      and carg = "Some (AttribDict ?c)" and cfg = "Some ?c" and cevs = "[]"
      and tbl = example_stf_table
      and b = "''velocity''" and stf = "Some ''displacement''" and a = "''displacement''"] h1
  have c1: "Image_init example_read_input_file example_stf_table (Some (AttribDict ?c))
       (Some ''displacement'')
     = Inr ((new_image (Some ?c))\<lparr>mode_dict := Some SW4_IMAGE_MODE_VELOCITY\<rparr>,
            [Overriding_warning ''displacement'' ''velocity''])"
    by simp
  from Image_init_kind_selection [where rif = example_read_input_file
      and carg = None and cfg = None and cevs = "[]" and tbl = example_stf_table
      and stf = None] h2
  have c2: "\<exists>k. Image_init example_read_input_file example_stf_table None None
            = Inl (ValueError (Unrecognized_source_time_function_type k))"
    by simp
  from Image_init_kind_selection [where rif = example_read_input_file
      and carg = None and cfg = None and cevs = "[]" and tbl = example_stf_table
      and stf = "Some ''velocity''"] h3
  have c3: "\<exists>img. Image_init example_read_input_file example_stf_table None
              (Some ''velocity'') = Inr (img, [])"
    by blast
  from Image_init_kind_selection [where rif = example_read_input_file
      and carg = "Some (Path ''run.in'')" and cfg = "Some ?d"
      and cevs = "[Input_file_read ''run.in'']" and tbl = example_stf_table
      and b = "''displacement''" and stf = "Some ''velocity''" and a = "''velocity''"] h4
  have c4: "Image_init example_read_input_file example_stf_table (Some (Path ''run.in''))
       (Some ''velocity'')
     = Inr ((new_image (Some ?d))\<lparr>mode_dict := Some SW4_IMAGE_MODE_DISPLACEMENT\<rparr>,
            [Input_file_read ''run.in'', Overriding_warning ''velocity'' ''displacement''])"
    by simp
  from c1 c2 c3 c4 show ?thesis by blast
qed

text \<open>
  C1 as the claim states it fails: an explicit valid kind is not enough when a
  configuration is given. With a source whose time function the table maps to neither 0
  nor 1, the explicit kind is overwritten by nothing and the constructor raises the error
  of an unrecognized kind, printing \<^verbatim>\<open>None\<close>; with a configuration that has no
  source, the constructor fails on the attribute.
\<close>

theorem explicit_kind_lost_counterexample:
  "Image_init example_read_input_file example_stf_table
     (Some (AttribDict
        [(''source'', [\<lparr>item_x = 0, item_y = 0, item_z = 0, item_type = ''Dirac''\<rparr>])]))
     (Some ''displacement'')
   = Inl (ValueError (Unrecognized_source_time_function_type None))
   \<and> Image_init example_read_input_file example_stf_table
     (Some (AttribDict
        [(''rec'', [\<lparr>item_x = 0, item_y = 0, item_z = 0, item_type = ''''\<rparr>])]))
     (Some ''displacement'')
   = Inl AttributeError"
  by (simp add: Image_init_def Image_source_time_function_type_def truthy_def new_image_def
      example_stf_table_def)

subsection \<open>Cross-section or map\<close>

text \<open>
  C9, as the code has it: \<^verbatim>\<open>is_cross_section\<close> returns true for the plane codes 0
  and 1, false for 2, and returns \<^verbatim>\<open>None\<close>, without failing, for every other plane
  code and for a plane code not yet read; \<^verbatim>\<open>type\<close> is "cross-section" when
  \<^verbatim>\<open>is_cross_section\<close> is true and "map" in every other case.
\<close>

theorem is_cross_section_by_plane_code:
  "Image_is_cross_section img =
     Inr (case plane_code img of
            None \<Rightarrow> None
          | Some c \<Rightarrow> if c = 0 \<or> c = 1 then Some True
                      else if c = 2 then Some False else None)
   \<and> Image_type img =
     Inr (if Image_is_cross_section img = Inr (Some True) then ''cross-section'' else ''map'')"
  by (simp add: Image_is_cross_section_def Image_type_def split: option.split)

text \<open>C9 as the claim states it fails: for the plane code 3 the property does not fail,
  it returns \<^verbatim>\<open>None\<close>, and the type of the image is "map".\<close>

theorem is_cross_section_other_plane_counterexample:
  "Image_is_cross_section ((new_image None)\<lparr>plane_code := Some 3\<rparr>) = Inr None
   \<and> Image_type ((new_image None)\<lparr>plane_code := Some 3\<rparr>) = Inr ''map''"
  by (simp add: Image_is_cross_section_def Image_type_def new_image_def)

subsection \<open>Reading without a file\<close>

text \<open>
  C10, as the code has it: with the file name \<^verbatim>\<open>None\<close>, and a valid kind and
  configuration (the configuration is read without an exception; then an explicit
  displacement or velocity with an empty or no configuration, or a configuration that
  yields a kind), \<^verbatim>\<open>read_SW4_image\<close> returns an image with no patches,
  \<^verbatim>\<open>number_of_patches\<close> 0 and every header field unset, and opens no image file. An
  input file is read exactly when the configuration is given as a path: that file, by
  \<^verbatim>\<open>read_input_file\<close>.
\<close>

theorem read_SW4_image_without_file:
  assumes "parse_config rif carg = Inr (cfg, evs0)"
      and "(\<not> truthy cfg \<and> (stf = Some ''displacement'' \<or> stf = Some ''velocity''))
           \<or> (truthy cfg \<and>
               (\<exists>b. Image_source_time_function_type tbl (new_image cfg) = Inr (Some b)))"
  shows "\<exists>img evs.
           read_SW4_image rif tbl hdt pdt fs val rnd None carg stf = Inr (img, evs)
           \<and> patches img = [] \<and> Image_number_of_patches img = 0
           \<and> time img = None \<and> coordinate img = None \<and> mode_code img = None
           \<and> precision_code img = None \<and> plane_code img = None
           \<and> number_of_patches_code img = None \<and> gridinfo img = None
           \<and> creation_time img = None \<and> filename img = None
           \<and> (\<forall>name. Opened name \<notin> set evs)
           \<and> (\<forall>p. Input_file_read p \<in> set evs \<longleftrightarrow> carg = Some (Path p))"
proof -
  have ev0: "(\<forall>name. Opened name \<notin> set evs0)
             \<and> (\<forall>p. Input_file_read p \<in> set evs0 \<longleftrightarrow> carg = Some (Path p))"
    using assms(1)
    by (auto simp: parse_config_def split: option.splits config_arg.splits sum.splits)
  have "\<exists>m evs. Image_init rif tbl carg stf = Inr ((new_image cfg)\<lparr>mode_dict := Some m\<rparr>, evs0 @ evs)
          \<and> (\<forall>name. Opened name \<notin> set evs) \<and> (\<forall>p. Input_file_read p \<notin> set evs)"
    using assms(2)
  proof
    assume "\<not> truthy cfg \<and> (stf = Some ''displacement'' \<or> stf = Some ''velocity'')"
    then show ?thesis using assms(1) by (auto simp: Image_init_def)
  next
    assume A: "truthy cfg \<and>
      (\<exists>b. Image_source_time_function_type tbl (new_image cfg) = Inr (Some b))"
    then obtain b where b: "Image_source_time_function_type tbl (new_image cfg) = Inr (Some b)"
      by blast
    then have "b = ''displacement'' \<or> b = ''velocity''"
      using derived_kind_cases by blast
    with A b assms(1) show ?thesis by (auto simp: Image_init_def split: option.splits)
  qed
  then obtain m evs where
    "Image_init rif tbl carg stf = Inr ((new_image cfg)\<lparr>mode_dict := Some m\<rparr>, evs0 @ evs)"
    "\<forall>name. Opened name \<notin> set evs" "\<forall>p. Input_file_read p \<notin> set evs"
    by blast
  with ev0 show ?thesis
    by (simp add: read_SW4_image_def new_image_def Image_number_of_patches_def)
qed

theorem read_SW4_image_without_file_witness:
  "(\<exists>img evs.
     read_SW4_image example_read_input_file example_stf_table byte_image_header_dtype
       byte_patch_header_dtype Map.empty example_value [] None None (Some ''displacement'')
       = Inr (img, evs)
     \<and> patches img = [] \<and> Image_number_of_patches img = 0
     \<and> time img = None \<and> coordinate img = None \<and> mode_code img = None
     \<and> precision_code img = None \<and> plane_code img = None
     \<and> number_of_patches_code img = None \<and> gridinfo img = None
     \<and> creation_time img = None \<and> filename img = None
     \<and> (\<forall>name. Opened name \<notin> set evs)
     \<and> (\<forall>p. Input_file_read p \<in> set evs \<longleftrightarrow> (None :: config_arg option) = Some (Path p)))
   \<and> (\<exists>img evs.
     read_SW4_image example_read_input_file example_stf_table byte_image_header_dtype
       byte_patch_header_dtype Map.empty example_value [] None (Some (Path ''run.in'')) None
       = Inr (img, evs)
     \<and> patches img = [] \<and> Image_number_of_patches img = 0
     \<and> time img = None \<and> coordinate img = None \<and> mode_code img = None
     \<and> precision_code img = None \<and> plane_code img = None
     \<and> number_of_patches_code img = None \<and> gridinfo img = None
     \<and> creation_time img = None \<and> filename img = None
     \<and> (\<forall>name. Opened name \<notin> set evs)
     \<and> (\<forall>p. Input_file_read p \<in> set evs \<longleftrightarrow> Some (Path ''run.in'') = Some (Path p)))"
proof (rule conjI)
  have p1: "parse_config example_read_input_file None = Inr (None, [])"
    by simp
  have h1: "(\<not> truthy None \<and>
            (Some ''displacement'' = Some ''displacement'' \<or>
             Some ''displacement'' = Some ''velocity''))
           \<or> (truthy None \<and>
               (\<exists>b. Image_source_time_function_type example_stf_table (new_image None)
                      = Inr (Some b)))"
    by (simp add: truthy_def)
  show "\<exists>img evs.
     read_SW4_image example_read_input_file example_stf_table byte_image_header_dtype
       byte_patch_header_dtype Map.empty example_value [] None None (Some ''displacement'')
       = Inr (img, evs)
     \<and> patches img = [] \<and> Image_number_of_patches img = 0
     \<and> time img = None \<and> coordinate img = None \<and> mode_code img = None
     \<and> precision_code img = None \<and> plane_code img = None
     \<and> number_of_patches_code img = None \<and> gridinfo img = None
     \<and> creation_time img = None \<and> filename img = None
     \<and> (\<forall>name. Opened name \<notin> set evs)
     \<and> (\<forall>p. Input_file_read p \<in> set evs \<longleftrightarrow> (None :: config_arg option) = Some (Path p))"
    by (rule read_SW4_image_without_file [OF p1 h1])
next
  let ?d = "[(''source'',
              [\<lparr>item_x = 0, item_y = 0, item_z = 0, item_type = ''GaussianInt''\<rparr>])]"
  have p2: "parse_config example_read_input_file (Some (Path ''run.in''))
              = Inr (Some ?d, [Input_file_read ''run.in''])"
    by (simp add: parse_config_def example_read_input_file_def)
  have h2: "(\<not> truthy (Some ?d) \<and>
            ((None :: string option) = Some ''displacement'' \<or> None = Some ''velocity''))
           \<or> (truthy (Some ?d) \<and>
               (\<exists>b. Image_source_time_function_type example_stf_table (new_image (Some ?d))
                      = Inr (Some b)))"
    by (simp add: truthy_def Image_source_time_function_type_def new_image_def
        example_stf_table_def)
  show "\<exists>img evs.
     read_SW4_image example_read_input_file example_stf_table byte_image_header_dtype
       byte_patch_header_dtype Map.empty example_value [] None (Some (Path ''run.in'')) None
       = Inr (img, evs)
     \<and> patches img = [] \<and> Image_number_of_patches img = 0
     \<and> time img = None \<and> coordinate img = None \<and> mode_code img = None
     \<and> precision_code img = None \<and> plane_code img = None
     \<and> number_of_patches_code img = None \<and> gridinfo img = None
     \<and> creation_time img = None \<and> filename img = None
     \<and> (\<forall>name. Opened name \<notin> set evs)
     \<and> (\<forall>p. Input_file_read p \<in> set evs \<longleftrightarrow> Some (Path ''run.in'') = Some (Path p))"
    by (rule read_SW4_image_without_file [OF p2 h2])
qed

text \<open>C10 as the claim states it fails: with the file name \<^verbatim>\<open>None\<close> and the
  configuration given as the path of an input file, that file is read.\<close>

theorem read_SW4_image_reads_input_file_counterexample:
  "read_SW4_image example_read_input_file example_stf_table byte_image_header_dtype
     byte_patch_header_dtype Map.empty example_value [] None (Some (Path ''run.in''))
     (Some ''displacement'')
   = Inr ((new_image
            (Some [(''source'',
                    [\<lparr>item_x = 0, item_y = 0, item_z = 0,
                      item_type = ''GaussianInt''\<rparr>])]))
          \<lparr>mode_dict := Some SW4_IMAGE_MODE_DISPLACEMENT\<rparr>,
          [Input_file_read ''run.in''])"
  by (simp add: read_SW4_image_def Image_init_def parse_config_def
      example_read_input_file_def truthy_def Image_source_time_function_type_def
      new_image_def example_stf_table_def)

subsection \<open>Facts about the numpy operations\<close>

lemma fromfile_length:
  "length (fst (fromfile f dt count)) =
     min (if count < 0 then length f div itemsize dt else nat count) (length f div itemsize dt)"
  by (simp add: fromfile_def Let_def)

lemma fromfile_short_rest:
  "0 \<le> count \<Longrightarrow> length (fst (fromfile f dt count)) < nat count \<Longrightarrow>
     snd (fromfile f dt count) = []"
  by (auto simp: fromfile_def Let_def min_def split: if_splits)

lemma fromfile_Nil: "fromfile [] dt count = ([], [])"
  by (simp add: fromfile_def Let_def)

lemma reshape_flat: "reshape xs r c = Inr arr \<Longrightarrow> flat arr = xs"
  by (auto simp: reshape_def Let_def split: if_splits)

lemma reshape_shape:
  "reshape xs r c = Inr arr \<Longrightarrow> 0 \<le> r \<Longrightarrow> 0 \<le> c \<Longrightarrow>
     shape arr = (nat r, nat c) \<and> int (length xs) = r * c"
  by (auto simp: reshape_def Let_def split: if_splits)


lemma reshape_short:
  "int (length xs) < r * c \<Longrightarrow> reshape xs r c = Inl (ValueError Cannot_reshape)"
proof -
  assume A: "int (length xs) < r * c"
  have "0 < r * c" using A by (smt (verit) of_nat_0_le_iff)
  then have "(0 < r \<and> 0 < c) \<or> (r < 0 \<and> c < 0)"
    by (simp add: zero_less_mult_iff)
  with A show ?thesis
    by (auto simp: reshape_def Let_def)
qed












subsection \<open>Facts about the reductions\<close>

lemma np_min_Inr: "xs \<noteq> [] \<Longrightarrow> np_min xs = Inr (Min (set xs))"
proof (cases xs)
  case Nil
  assume "xs \<noteq> []"
  with Nil show ?thesis by simp
next
  case (Cons y ys)
  have "Min (set (y # ys)) = fold min ys y" by (rule Min.set_eq_fold)
  with Cons show ?thesis by simp
qed

lemma np_max_Inr: "xs \<noteq> [] \<Longrightarrow> np_max xs = Inr (Max (set xs))"
proof (cases xs)
  case Nil
  assume "xs \<noteq> []"
  with Nil show ?thesis by simp
next
  case (Cons y ys)
  have "Max (set (y # ys)) = fold max ys y" by (rule Max.set_eq_fold)
  with Cons show ?thesis by simp
qed




subsection \<open>Facts about the loop of \<^verbatim>\<open>_read_patches\<close>\<close>

lemma is_cross_section_patches [simp]:
  "Image_is_cross_section (self\<lparr>patches := ps\<rparr>) = Image_is_cross_section self"
  by (simp add: Image_is_cross_section_def)

lemma precision_patches [simp]:
  "Image_precision (self\<lparr>patches := ps\<rparr>) = Image_precision self"
  by (simp add: Image_precision_def)

lemma Patch_set_data_patches [simp]:
  "Patch_set_data val p (self\<lparr>patches := ps\<rparr>) arr = Patch_set_data val p self arr"
  by (simp add: Patch_set_data_def)

lemma read_patch_patches [simp]:
  "read_patch val (self\<lparr>patches := ps\<rparr>) ih f = read_patch val self ih f"
  by (simp add: read_patch_def Let_def split: prod.split sum.split option.split)

lemma Patch_set_data_decoded:
  "Patch_set_data val (Patch_set_header (Patch_init (Some i)) (hh, zz, ibb, nii, jbb, njj))
       self arr =
     (if flat arr = [] then Inl (ValueError Zero_size_reduction)
      else Inr \<lparr>number = Some i, h = Some hh, zmin = Some zz, ib = Some ibb,
                 ni = Some nii, jb = Some jbb, nj = Some njj,
                 data = Some (if Image_is_cross_section self = Inr (Some True)
                              then arr else T arr),
                 extent = Some (if Image_is_cross_section self = Inr (Some True)
                                then (0 - hh / 2, of_int (nii - 1) * hh + hh / 2,
                                      zz - hh / 2, zz + of_int (njj - 1) * hh + hh / 2)
                                else (0 - hh / 2, of_int (njj - 1) * hh + hh / 2,
                                      0 - hh / 2, of_int (nii - 1) * hh + hh / 2)),
                 patch_min = Some (Min (set (map val (flat arr)))),
                 patch_max = Some (Max (set (map val (flat arr)))),
                 patch_std = Some (np_std (map val (flat arr))),
                 patch_rms = Some (sqrt (np_mean (map (\<lambda>x. x ^ 2) (map val (flat arr)))))\<rparr>)"
proof (cases "flat arr = []")
  case True
  then show ?thesis
    by (simp add: Patch_set_data_def Patch_set_header_def Patch_init_def
        Image_is_cross_section_def)
next
  case False
  then have ne: "map val (flat arr) \<noteq> []" by simp
  obtain b where b: "Image_is_cross_section self = Inr b"
    by (cases "Image_is_cross_section self")
       (auto simp: Image_is_cross_section_def split: if_splits)
  from False b show ?thesis
    by (simp add: Patch_set_data_def Patch_set_header_def Patch_init_def Let_def
        np_min_Inr [OF ne] np_max_Inr [OF ne])
qed

lemma read_patch_unfold:
  "read_patch val self (i, hh, zz, ibb, nii, jbb, njj) f =
     (case Image_precision self of
        Inl e \<Rightarrow> Inl e
      | Inr dt \<Rightarrow>
          (case reshape (fst (fromfile f dt (nii * njj))) njj nii of
             Inl e \<Rightarrow> Inl e
           | Inr arr \<Rightarrow>
               (case Patch_set_data val
                       (Patch_set_header (Patch_init (Some i)) (hh, zz, ibb, nii, jbb, njj))
                       self arr of
                  Inl e \<Rightarrow> Inl e
                | Inr p \<Rightarrow> Inr (p, snd (fromfile f dt (nii * njj))))))"
  by (simp add: read_patch_def Let_def Patch_set_header_def Patch_init_def
      split: sum.split prod.split)

text \<open>What a turn of the loop that does not raise has done.\<close>

lemma read_patch_Inr:
  assumes "read_patch val self (i, hh, zz, ibb, nii, jbb, njj) f = Inr (p, f')"
  shows "\<exists>dt arr.
           Image_precision self = Inr dt
           \<and> fromfile f dt (nii * njj) = (flat arr, f')
           \<and> reshape (flat arr) njj nii = Inr arr
           \<and> flat arr \<noteq> []
           \<and> p = \<lparr>number = Some i, h = Some hh, zmin = Some zz, ib = Some ibb,
                  ni = Some nii, jb = Some jbb, nj = Some njj,
                  data = Some (if Image_is_cross_section self = Inr (Some True)
                               then arr else T arr),
                  extent = Some (if Image_is_cross_section self = Inr (Some True)
                                 then (0 - hh / 2, of_int (nii - 1) * hh + hh / 2,
                                       zz - hh / 2, zz + of_int (njj - 1) * hh + hh / 2)
                                 else (0 - hh / 2, of_int (njj - 1) * hh + hh / 2,
                                       0 - hh / 2, of_int (nii - 1) * hh + hh / 2)),
                  patch_min = Some (Min (set (map val (flat arr)))),
                  patch_max = Some (Max (set (map val (flat arr)))),
                  patch_std = Some (np_std (map val (flat arr))),
                  patch_rms = Some (sqrt (np_mean (map (\<lambda>x. x ^ 2) (map val (flat arr)))))\<rparr>"
proof -
  obtain dt where dt: "Image_precision self = Inr dt"
    using assms by (cases "Image_precision self") (auto simp: read_patch_unfold)
  obtain arr where arr: "reshape (fst (fromfile f dt (nii * njj))) njj nii = Inr arr"
    using assms dt
    by (cases "reshape (fst (fromfile f dt (nii * njj))) njj nii")
       (auto simp: read_patch_unfold)
  have fl: "flat arr = fst (fromfile f dt (nii * njj))" using arr by (rule reshape_flat)
  have ne: "flat arr \<noteq> []"
    using assms dt arr
    by (auto simp: read_patch_unfold Patch_set_data_decoded split: if_splits)
  from assms dt arr ne have
    "p = \<lparr>number = Some i, h = Some hh, zmin = Some zz, ib = Some ibb,
                  ni = Some nii, jb = Some jbb, nj = Some njj,
                  data = Some (if Image_is_cross_section self = Inr (Some True)
                               then arr else T arr),
                  extent = Some (if Image_is_cross_section self = Inr (Some True)
                                 then (0 - hh / 2, of_int (nii - 1) * hh + hh / 2,
                                       zz - hh / 2, zz + of_int (njj - 1) * hh + hh / 2)
                                 else (0 - hh / 2, of_int (njj - 1) * hh + hh / 2,
                                       0 - hh / 2, of_int (nii - 1) * hh + hh / 2)),
                  patch_min = Some (Min (set (map val (flat arr)))),
                  patch_max = Some (Max (set (map val (flat arr)))),
                  patch_std = Some (np_std (map val (flat arr))),
                  patch_rms = Some (sqrt (np_mean (map (\<lambda>x. x ^ 2) (map val (flat arr)))))\<rparr>"
    and "f' = snd (fromfile f dt (nii * njj))"
    by (auto simp: read_patch_unfold Patch_set_data_decoded)
  moreover have "fromfile f dt (nii * njj) = (flat arr, snd (fromfile f dt (nii * njj)))"
    using fl by simp
  moreover have "reshape (flat arr) njj nii = Inr arr"
    using arr fl by simp
  ultimately show ?thesis using dt ne
    by (intro exI [of _ dt] exI [of _ arr]) simp
qed

lemma read_patch_short:
  assumes "Image_precision self = Inr dt"
      and "int (length f div itemsize dt) < nii * njj"
  shows "read_patch val self (i, hh, zz, ibb, nii, jbb, njj) f = Inl (ValueError Cannot_reshape)"
proof -
  obtain raw g where ff: "fromfile f dt (nii * njj) = (raw, g)"
    by (cases "fromfile f dt (nii * njj)")
  have "length raw = length (fst (fromfile f dt (nii * njj)))" using ff by simp
  also have "\<dots> \<le> length f div itemsize dt"
    by (simp add: fromfile_length)
  finally have "int (length raw) < njj * nii"
    using assms(2) by (simp add: mult.commute)
  then have "reshape raw njj nii = Inl (ValueError Cannot_reshape)"
    by (rule reshape_short)
  with assms(1) ff show ?thesis
    by (simp add: read_patch_unfold)
qed

lemma read_patch_at_end:
  "\<exists>e. read_patch val self ih [] = Inl e"
proof (cases "read_patch val self ih []")
  case (Inl e)
  then show ?thesis by blast
next
  case (Inr r)
  obtain i hh zz ibb nii jbb njj where ih: "ih = (i, hh, zz, ibb, nii, jbb, njj)"
    by (cases ih)
  obtain p f' where r: "r = (p, f')" by (cases r)
  from read_patch_Inr [of val self i hh zz ibb nii jbb njj "[]" p f'] Inr ih r
  show ?thesis by (auto simp: fromfile_Nil)
qed

lemma read_patches_loop_fields:
  "read_patches_loop val self hs f = Inr (self', f') \<Longrightarrow>
     \<exists>ps. self' = self\<lparr>patches := patches self @ ps\<rparr> \<and>
          list_all2 (\<lambda>ih p. \<exists>g g'. read_patch val self ih g = Inr (p, g')) hs ps"
proof (induction hs arbitrary: self f)
  case Nil
  then show ?case by simp
next
  case (Cons ih hs)
  from Cons.prems obtain p f1 where
    p: "read_patch val self ih f = Inr (p, f1)" and
    rest: "read_patches_loop val (self\<lparr>patches := patches self @ [p]\<rparr>) hs f1 = Inr (self', f')"
    by (auto split: sum.splits)
  from Cons.IH [OF rest] obtain ps where
    ps: "self' = self\<lparr>patches := patches self @ [p], patches := (patches self @ [p]) @ ps\<rparr>"
        "list_all2 (\<lambda>ih p. \<exists>g g'. read_patch val self ih g = Inr (p, g')) hs ps"
    by auto
  have "self' = self\<lparr>patches := patches self @ (p # ps)\<rparr>"
    using ps(1) by simp
  moreover have "list_all2 (\<lambda>ih p. \<exists>g g'. read_patch val self ih g = Inr (p, g')) (ih # hs) (p # ps)"
    using p ps(2) by auto
  ultimately show ?case by blast
qed

lemma read_patches_loop_at_end:
  "hs \<noteq> [] \<Longrightarrow> \<exists>e. read_patches_loop val self hs [] = Inl e"
proof (cases hs)
  case Nil
  assume "hs \<noteq> []"
  with Nil show ?thesis by simp
next
  case (Cons ih rest)
  obtain e where "read_patch val self ih [] = Inl e"
    using read_patch_at_end by blast
  with Cons show ?thesis by simp
qed

lemma read_patch_eq:
  assumes "Image_precision self = Inr dt"
      and "fromfile f dt (nii * njj) = (raw, f')"
      and "reshape raw njj nii = Inr arr"
      and "raw \<noteq> []"
  shows "read_patch val self (i, hh, zz, ibb, nii, jbb, njj) f =
           Inr (\<lparr>number = Some i, h = Some hh, zmin = Some zz, ib = Some ibb,
                 ni = Some nii, jb = Some jbb, nj = Some njj,
                 data = Some (if Image_is_cross_section self = Inr (Some True)
                              then arr else T arr),
                 extent = Some (if Image_is_cross_section self = Inr (Some True)
                                then (0 - hh / 2, of_int (nii - 1) * hh + hh / 2,
                                      zz - hh / 2, zz + of_int (njj - 1) * hh + hh / 2)
                                else (0 - hh / 2, of_int (njj - 1) * hh + hh / 2,
                                      0 - hh / 2, of_int (nii - 1) * hh + hh / 2)),
                 patch_min = Some (Min (set (map val raw))),
                 patch_max = Some (Max (set (map val raw))),
                 patch_std = Some (np_std (map val raw)),
                 patch_rms = Some (sqrt (np_mean (map (\<lambda>x. x ^ 2) (map val raw))))\<rparr>, f')"
proof -
  have fl: "flat arr = raw" using assms(3) by (rule reshape_flat)
  with assms show ?thesis
    by (simp add: read_patch_unfold Patch_set_data_decoded)
qed

lemma read_patch_error_kind:
  assumes "Image_precision self = Inr dt" and "read_patch val self ih f = Inl e"
  shows "\<exists>v. e = ValueError v"
proof -
  obtain i hh zz ibb nii jbb njj where ih: "ih = (i, hh, zz, ibb, nii, jbb, njj)"
    by (cases ih)
  obtain raw g where ff: "fromfile f dt (nii * njj) = (raw, g)"
    by (cases "fromfile f dt (nii * njj)")
  show ?thesis
  proof (cases "reshape raw njj nii")
    case (Inl e')
    then have "e' = ValueError Cannot_reshape"
      by (auto simp: reshape_def Let_def split: if_splits)
    with Inl assms ih ff show ?thesis
      by (auto simp: read_patch_unfold)
  next
    case (Inr arr)
    show ?thesis
    proof (cases "raw = []")
      case True
      then have "flat arr = []" using Inr reshape_flat by fastforce
      with Inr assms ih ff show ?thesis
        by (auto simp: read_patch_unfold Patch_set_data_decoded)
    next
      case False
      from read_patch_eq [OF assms(1) ff Inr False] assms(2) ih show ?thesis by simp
    qed
  qed
qed

lemma read_patches_loop_error_kind:
  "Image_precision self = Inr dt \<Longrightarrow> read_patches_loop val self hs f = Inl e \<Longrightarrow>
     \<exists>v. e = ValueError v"
proof (induction hs arbitrary: self f)
  case Nil
  then show ?case by simp
next
  case (Cons ih hs)
  show ?case
  proof (cases "read_patch val self ih f")
    case (Inl e')
    with Cons.prems have "e' = e" by simp
    with Inl Cons.prems(1) show ?thesis using read_patch_error_kind by blast
  next
    case (Inr r)
    obtain p f1 where r: "r = (p, f1)" by (cases r)
    have "Image_precision (self\<lparr>patches := patches self @ [p]\<rparr>) = Inr dt"
      using Cons.prems(1) by simp
    moreover have "read_patches_loop val (self\<lparr>patches := patches self @ [p]\<rparr>) hs f1 = Inl e"
      using Cons.prems(2) Inr r by simp
    ultimately show ?thesis by (rule Cons.IH)
  qed
qed

lemma read_patches_loop_member_fails:
  "ih \<in> set hs \<Longrightarrow> (\<And>g. \<exists>e. read_patch val self ih g = Inl e) \<Longrightarrow>
     \<exists>e. read_patches_loop val self hs f = Inl e"
proof (induction hs arbitrary: self f)
  case Nil
  then show ?case by simp
next
  case (Cons x hs)
  show ?case
  proof (cases "read_patch val self x f")
    case (Inl e)
    then show ?thesis by simp
  next
    case (Inr r)
    obtain p f1 where r: "r = (p, f1)" by (cases r)
    have "x \<noteq> ih" using Inr Cons.prems(2) [of f] by auto
    with Cons.prems(1) have mem: "ih \<in> set hs" by simp
    have "\<exists>e. read_patches_loop val (self\<lparr>patches := patches self @ [p]\<rparr>) hs f1 = Inl e"
      using mem Cons.prems(2) by (intro Cons.IH) simp_all
    with Inr r show ?thesis by simp
  qed
qed

subsection \<open>Facts about the header and the whole read\<close>

lemma Image_init_patches:
  "Image_init rif tbl carg stf = Inr (img, evs) \<Longrightarrow> patches img = []"
  by (auto simp: Image_init_def Let_def new_image_def split: sum.splits if_splits)

lemma Image_read_header_Inr:
  assumes "Image_read_header hdt self f = Inr (self', f')"
  shows "f' = drop (itemsize hdt) f \<and> patches self' = patches self
         \<and> (\<exists>n. number_of_patches_code self' = Some n)
         \<and> (\<exists>c. plane_code self' = Some c)"
proof -
  obtain hs g where ff: "fromfile f hdt 1 = (hs, g)" by (cases "fromfile f hdt 1")
  with assms obtain x xs where hs: "hs = x # xs"
    by (cases hs) (auto simp: Image_read_header_def)
  have "length (fst (fromfile f hdt 1)) = Suc (length xs)" using ff hs by simp
  then have one: "1 \<le> length f div itemsize hdt"
    by (simp add: fromfile_length min_def split: if_splits)
  then have "g = drop (itemsize hdt) f"
    using ff by (simp add: fromfile_def Let_def min_def split: if_splits)
  with assms ff hs show ?thesis
    by (auto simp: Image_read_header_def split: prod.splits)
qed

lemma Image_read_patches_Inr:
  assumes "Image_read_patches val pdt self f = Inr (self', f')"
  shows "\<exists>n ps. number_of_patches_code self = Some n
           \<and> self' = self\<lparr>patches := patches self @ ps\<rparr>
           \<and> list_all2 (\<lambda>ih p. \<exists>g g'. read_patch val self ih g = Inr (p, g'))
                (enumerate 0 (fst (fromfile f pdt n))) ps
           \<and> (0 \<le> n \<longrightarrow> length ps = nat n \<or> ps = [] \<and> length f div itemsize pdt = 0)"
proof -
  from assms obtain n where n: "number_of_patches_code self = Some n"
    by (cases "number_of_patches_code self") (auto simp: Image_read_patches_def)
  obtain hs f1 where ff: "fromfile f pdt n = (hs, f1)" by (cases "fromfile f pdt n")
  from assms n ff have loop: "read_patches_loop val self (enumerate 0 hs) f1 = Inr (self', f')"
    by (simp add: Image_read_patches_def)
  from read_patches_loop_fields [OF loop] obtain ps where
    ps: "self' = self\<lparr>patches := patches self @ ps\<rparr>"
        "list_all2 (\<lambda>ih p. \<exists>g g'. read_patch val self ih g = Inr (p, g')) (enumerate 0 hs) ps"
    by blast
  have len: "length ps = length hs"
    using ps(2) by (auto dest: list_all2_lengthD)
  have "length ps = nat n \<or> ps = [] \<and> length f div itemsize pdt = 0" if "0 \<le> n"
  proof (cases "length hs < nat n")
    case False
    have "length hs = length (fst (fromfile f pdt n))" using ff by simp
    with that False have "length hs = nat n" by (simp add: fromfile_length)
    with len show ?thesis by simp
  next
    case True
    then have "snd (fromfile f pdt n) = []"
      using that ff fromfile_short_rest [of n f pdt] by simp
    with ff have f1: "f1 = []" by simp
    have "hs = []"
    proof (rule ccontr)
      assume "hs \<noteq> []"
      then have "enumerate 0 hs \<noteq> []"
        by (metis length_enumerate length_0_conv)
      from read_patches_loop_at_end [OF this, of val self] loop f1 show False by simp
    qed
    moreover have "length hs = length (fst (fromfile f pdt n))" using ff by simp
    ultimately have "length f div itemsize pdt = 0"
      using that True by (simp add: fromfile_length min_def split: if_splits)
    with \<open>hs = []\<close> len show ?thesis by simp
  qed
  with n ps ff show ?thesis by auto
qed

lemma read_SW4_image_file:
  assumes "name \<noteq> ''random''"
      and "read_SW4_image rif tbl hdt pdt fs val rnd (Some name) carg stf = Inr (img, evs)"
  shows "\<exists>f img0 evs0 img1 f2.
           fs name = Some f
           \<and> Image_init rif tbl carg stf = Inr (img0, evs0)
           \<and> Image_read_header hdt (img0\<lparr>filename := Some name\<rparr>) f
               = Inr (img1, drop (itemsize hdt) f)
           \<and> patches img1 = []
           \<and> Image_read_patches val pdt img1 (drop (itemsize hdt) f) = Inr (img, f2)"
proof -
  from assms obtain img0 evs0 where
    init: "Image_init rif tbl carg stf = Inr (img0, evs0)"
    by (cases "Image_init rif tbl carg stf") (auto simp: read_SW4_image_def)
  from assms init obtain f where f: "fs name = Some f"
    by (cases "fs name") (auto simp: read_SW4_image_def Let_def)
  from assms init f obtain img1 f1 where
    hdr: "Image_read_header hdt (img0\<lparr>filename := Some name\<rparr>) f = Inr (img1, f1)"
    by (cases "Image_read_header hdt (img0\<lparr>filename := Some name\<rparr>) f")
       (auto simp: read_SW4_image_def Let_def)
  from Image_read_header_Inr [OF hdr] Image_init_patches [OF init] have
    f1: "f1 = drop (itemsize hdt) f" and p1: "patches img1 = []"
    by simp_all
  from assms init f hdr obtain f2 where
    "Image_read_patches val pdt img1 f1 = Inr (img, f2)"
    by (cases "Image_read_patches val pdt img1 f1") (auto simp: read_SW4_image_def Let_def)
  with init f hdr f1 p1 show ?thesis by blast
qed

subsection \<open>Where the sample block of a patch stands in the file\<close>






subsection \<open>The reader on the example streams\<close>

lemmas eval_defs =
  read_SW4_image_def Image_init_def parse_config_def truthy_def new_image_def
  Image_read_header_def Image_read_patches_def read_patch_def Patch_set_header_def
  Patch_init_def Patch_set_data_def Image_is_cross_section_def Image_precision_def
  SW4_IMAGE_PRECISION_def float32_def float64_def fromfile_def reshape_def T_def
  np_mean_def np_std_def example_value_def
  byte_image_header_dtype_def byte_patch_header_dtype_def example_stream_def
  example_stream_two_def endswith_def Let_def enumerate_eq_zip upt_conv_Cons
  power2_eq_square

lemma example_cross_section_read:
  "read_SW4_image example_read_input_file example_stf_table byte_image_header_dtype
     byte_patch_header_dtype [''a.sw4img'' \<mapsto> example_stream 0] example_value []
     (Some ''a.sw4img'') None (Some ''displacement'')
   = Inr (\<lparr>patches =
             [\<lparr>number = Some 0, h = Some 2, zmin = Some 5, ib = Some 1,
              ni = Some 3, jb = Some 1, nj = Some 2,
              data = Some \<lparr>shape = (2, 3),
                           flat = [[1, 1, 1, 1], [2, 2, 2, 2], [3, 3, 3, 3], [4, 4, 4, 4], [5, 5, 5, 5], [6, 6, 6, 6]]\<rparr>,
              extent = Some (- 1, 5, 4, 8),
              patch_min = Some 1, patch_max = Some 6,
              patch_std = Some (sqrt (35 / 12)), patch_rms = Some (sqrt (91 / 6))\<rparr>],
           config = None, mode_dict = Some SW4_IMAGE_MODE_DISPLACEMENT,
           filename = Some ''a.sw4img'', precision_code = Some 4,
           number_of_patches_code = Some 1, time = Some 0,
           plane_code = Some 0, coordinate = Some 0, mode_code = Some 1,
           gridinfo = Some 0, creation_time = Some [0]\<rparr>,
          [Opened ''a.sw4img''])"
  by (simp add: eval_defs)



lemma example_name: "''a.sw4img'' \<noteq> ''random''"
  by simp

subsection \<open>The number and the order of the patches\<close>

text \<open>
  C4, as the code has it: when \<^verbatim>\<open>read_SW4_image\<close> returns an image for a file, the
  image has one patch for every patch header that was read, in the order of the file:
  patch \<open>k\<close> has the number \<open>k\<close> and the fields of header \<open>k\<close>. The headers read are
  the complete records that follow the image header, at most as many as the patch count
  says. So for a patch count that is not negative, the number of patches is the patch
  count, or it is zero because not one complete patch header follows the image header.
\<close>

theorem patches_follow_headers_read:
  assumes "name \<noteq> ''random''"
      and "read_SW4_image rif tbl hdt pdt fs val rnd (Some name) carg stf = Inr (img, evs)"
  shows "\<exists>f n hs.
           fs name = Some f
           \<and> number_of_patches_code img = Some n
           \<and> hs = fst (fromfile (drop (itemsize hdt) f) pdt n)
           \<and> Image_number_of_patches img = length hs
           \<and> (\<forall>k<length hs.
                 number (patches img ! k) = Some k
                 \<and> (case hs ! k of
                      (hh, zz, ibb, nii, jbb, njj) \<Rightarrow>
                        h (patches img ! k) = Some hh \<and> zmin (patches img ! k) = Some zz
                        \<and> ib (patches img ! k) = Some ibb \<and> ni (patches img ! k) = Some nii
                        \<and> jb (patches img ! k) = Some jbb \<and> nj (patches img ! k) = Some njj))
           \<and> (0 \<le> n \<longrightarrow>
                 Image_number_of_patches img = nat n
                 \<or> Image_number_of_patches img = 0
                    \<and> (length f - itemsize hdt) div itemsize pdt = 0)"
proof -
  from read_SW4_image_file [OF assms] obtain f img0 evs0 img1 f2 where
    f: "fs name = Some f" and
    p1: "patches img1 = []" and
    rp: "Image_read_patches val pdt img1 (drop (itemsize hdt) f) = Inr (img, f2)"
    by blast
  from Image_read_patches_Inr [OF rp] p1 obtain n ps where
    n: "number_of_patches_code img1 = Some n" and
    img: "img = img1\<lparr>patches := ps\<rparr>" and
    all: "list_all2 (\<lambda>ih p. \<exists>g g'. read_patch val img1 ih g = Inr (p, g'))
            (enumerate 0 (fst (fromfile (drop (itemsize hdt) f) pdt n))) ps" and
    cnt: "0 \<le> n \<longrightarrow> length ps = nat n
            \<or> ps = [] \<and> length (drop (itemsize hdt) f) div itemsize pdt = 0"
    by auto
  let ?hs = "fst (fromfile (drop (itemsize hdt) f) pdt n)"
  have len: "length ps = length ?hs"
    using all by (auto dest: list_all2_lengthD)
  have fields: "number (ps ! k) = Some k
        \<and> (case ?hs ! k of
             (hh, zz, ibb, nii, jbb, njj) \<Rightarrow>
               h (ps ! k) = Some hh \<and> zmin (ps ! k) = Some zz
               \<and> ib (ps ! k) = Some ibb \<and> ni (ps ! k) = Some nii
               \<and> jb (ps ! k) = Some jbb \<and> nj (ps ! k) = Some njj)"
    if k: "k < length ?hs" for k
  proof -
    obtain hh zz ibb nii jbb njj where hk: "?hs ! k = (hh, zz, ibb, nii, jbb, njj)"
      by (cases "?hs ! k")
    have "enumerate 0 ?hs ! k = (k, ?hs ! k)"
      using k by (simp add: nth_enumerate_eq)
    with all k obtain g g' where
      "read_patch val img1 (k, hh, zz, ibb, nii, jbb, njj) g = Inr (ps ! k, g')"
      using hk by (auto simp: list_all2_conv_all_nth)
    from read_patch_Inr [OF this] hk show ?thesis by auto
  qed
  from f n img len fields cnt show ?thesis
    by (auto simp: Image_number_of_patches_def)
qed

theorem patches_follow_headers_read_witness:
  "\<exists>f n hs.
     [''a.sw4img'' \<mapsto> example_stream 0] ''a.sw4img'' = Some f
     \<and> Some (1::int) = Some n
     \<and> hs = fst (fromfile (drop (itemsize byte_image_header_dtype) f)
                   byte_patch_header_dtype n)
     \<and> (1::nat) = length hs
     \<and> (0 \<le> n \<longrightarrow> (1::nat) = nat n
          \<or> (1::nat) = 0 \<and>
            (length f - itemsize byte_image_header_dtype)
              div itemsize byte_patch_header_dtype = 0)"
  using patches_follow_headers_read [OF example_name example_cross_section_read]
  by (simp add: Image_number_of_patches_def)

text \<open>C4 as the claim states it fails: a file that ends after an image header with the
  patch count 2 is read without an exception, and the image has no patches; the same
  holds for the patch count -2, with which \<^verbatim>\<open>np.fromfile\<close> reads every record
  that is left.\<close>

theorem patch_count_not_met_counterexample:
  "read_SW4_image example_read_input_file example_stf_table byte_image_header_dtype
       byte_patch_header_dtype
     [''a.sw4img'' \<mapsto> [4, 2, 0, 0, 0, 1, 0, 0]] example_value []
     (Some ''a.sw4img'') None
     (Some ''displacement'')
   = Inr (\<lparr>patches = [], config = None, mode_dict = Some SW4_IMAGE_MODE_DISPLACEMENT,
           filename = Some ''a.sw4img'', precision_code = Some 4,
           number_of_patches_code = Some 2, time = Some 0,
           plane_code = Some 0, coordinate = Some 0, mode_code = Some 1,
           gridinfo = Some 0, creation_time = Some [0]\<rparr>,
          [Opened ''a.sw4img''])
   \<and> read_SW4_image example_read_input_file example_stf_table byte_image_header_dtype
       byte_patch_header_dtype
     [''a.sw4img'' \<mapsto> [4, 254, 0, 1, 0, 1, 0, 0]] example_value []
     (Some ''a.sw4img'') None
     (Some ''displacement'')
   = Inr (\<lparr>patches = [], config = None, mode_dict = Some SW4_IMAGE_MODE_DISPLACEMENT,
           filename = Some ''a.sw4img'', precision_code = Some 4,
           number_of_patches_code = Some (- 2), time = Some 0,
           plane_code = Some 1, coordinate = Some 0, mode_code = Some 1,
           gridinfo = Some 0, creation_time = Some [0]\<rparr>,
          [Opened ''a.sw4img''])"
  by (simp add: eval_defs)

subsection \<open>The grid and the extent of a patch\<close>












subsection \<open>A truncated sample block\<close>

lemma read_patches_loop_truncated:
  "ends_in_sample_block dt hs f \<Longrightarrow> Image_precision self = Inr dt \<Longrightarrow>
     \<exists>v. read_patches_loop val self (enumerate i hs) f = Inl (ValueError v)"
proof (induction hs arbitrary: self f i)
  case Nil
  then show ?case by simp
next
  case (Cons hdr hs)
  obtain hh zz ibb nii jbb njj where hdr: "hdr = (hh, zz, ibb, nii, jbb, njj)"
    by (cases hdr)
  show ?case
  proof (cases "read_patch val self (i, hdr) f")
    case (Inl e)
    then obtain v where "e = ValueError v"
      using read_patch_error_kind [OF Cons.prems(2)] by blast
    with Inl show ?thesis by simp
  next
    case (Inr r)
    obtain p f1 where r: "r = (p, f1)" by (cases r)
    have "\<not> int (length f div itemsize dt) < nii * njj"
      using read_patch_short [OF Cons.prems(2), of f nii njj val i hh zz ibb jbb] Inr hdr
      by auto
    with Cons.prems(1) hdr have
      rest: "ends_in_sample_block dt hs (snd (fromfile f dt (nii * njj)))"
      by simp
    from read_patch_Inr [of val self i hh zz ibb nii jbb njj f p f1] Inr r hdr Cons.prems(2)
    have "snd (fromfile f dt (nii * njj)) = f1" by auto
    with rest have "ends_in_sample_block dt hs f1" by simp
    moreover have "Image_precision (self\<lparr>patches := patches self @ [p]\<rparr>) = Inr dt"
      using Cons.prems(2) by simp
    ultimately have
      "\<exists>v. read_patches_loop val (self\<lparr>patches := patches self @ [p]\<rparr>) (enumerate (Suc i) hs) f1
             = Inl (ValueError v)"
      by (rule Cons.IH)
    with Inr r show ?thesis by simp
  qed
qed

text \<open>
  C5: a file is opened and its image header read; the precision code is a known one. When
  the stream ends within the sample block of some patch (fewer than \<open>ni * nj\<close> values
  are left for it), \<^verbatim>\<open>read_SW4_image\<close> raises \<^verbatim>\<open>ValueError\<close>, the exception
  of the truncated read, and returns no image.
\<close>

theorem truncated_sample_block:
  assumes "name \<noteq> ''random''"
      and "fs name = Some f"
      and "Image_init rif tbl carg stf = Inr (img0, evs0)"
      and "Image_read_header hdt (img0\<lparr>filename := Some name\<rparr>) f = Inr (img1, f1)"
      and "Image_precision img1 = Inr dt"
      and "number_of_patches_code img1 = Some n"
      and "ends_in_sample_block dt (fst (fromfile f1 pdt n)) (snd (fromfile f1 pdt n))"
  shows "\<exists>v. read_SW4_image rif tbl hdt pdt fs val rnd (Some name) carg stf = Inl (ValueError v)"
proof -
  obtain hs f2 where ff: "fromfile f1 pdt n = (hs, f2)" by (cases "fromfile f1 pdt n")
  with assms(7) have "ends_in_sample_block dt hs f2" by simp
  from read_patches_loop_truncated [OF this assms(5), of val 0] obtain v where
    "read_patches_loop val img1 (enumerate 0 hs) f2 = Inl (ValueError v)"
    by blast
  then have "Image_read_patches val pdt img1 f1 = Inl (ValueError v)"
    using assms(6) ff by (simp add: Image_read_patches_def)
  with assms(1-4) show ?thesis
    by (simp add: read_SW4_image_def Let_def)
qed

lemma example_header_read:
  "Image_read_header byte_image_header_dtype
     ((new_image None)\<lparr>mode_dict := Some SW4_IMAGE_MODE_DISPLACEMENT,
                         filename := Some ''a.sw4img''\<rparr>)
     (butlast (example_stream 0))
   = Inr ((new_image None)
            \<lparr>mode_dict := Some SW4_IMAGE_MODE_DISPLACEMENT, filename := Some ''a.sw4img'',
             precision_code := Some 4, number_of_patches_code := Some 1, time := Some 0,
             plane_code := Some 0, coordinate := Some 0, mode_code := Some 1,
             gridinfo := Some 0, creation_time := Some [0]\<rparr>,
          drop 8 (butlast (example_stream 0)))"
  by code_simp

theorem truncated_sample_block_witness:
  "\<exists>v. read_SW4_image example_read_input_file example_stf_table byte_image_header_dtype
       byte_patch_header_dtype
         [''a.sw4img'' \<mapsto> butlast (example_stream 0)] example_value []
     (Some ''a.sw4img'') None
         (Some ''displacement'') = Inl (ValueError v)"
proof -
  let ?img0 = "(new_image None)\<lparr>mode_dict := Some SW4_IMAGE_MODE_DISPLACEMENT\<rparr>"
  let ?img1 = "(new_image None)
            \<lparr>mode_dict := Some SW4_IMAGE_MODE_DISPLACEMENT, filename := Some ''a.sw4img'',
             precision_code := Some 4, number_of_patches_code := Some 1, time := Some 0,
             plane_code := Some 0, coordinate := Some 0, mode_code := Some 1,
             gridinfo := Some 0, creation_time := Some [0]\<rparr>"
  let ?f1 = "drop 8 (butlast (example_stream 0))"
  have h2: "[''a.sw4img'' \<mapsto> butlast (example_stream 0)] ''a.sw4img''
              = Some (butlast (example_stream 0))"
    by simp
  have h3: "Image_init example_read_input_file example_stf_table None (Some ''displacement'') = Inr (?img0, [])"
    by (simp add: Image_init_def truthy_def)
  have h4: "Image_read_header byte_image_header_dtype (?img0\<lparr>filename := Some ''a.sw4img''\<rparr>)
              (butlast (example_stream 0)) = Inr (?img1, ?f1)"
    using example_header_read by simp
  have h5: "Image_precision ?img1 = Inr float32"
    by (simp add: Image_precision_def SW4_IMAGE_PRECISION_def)
  have h6: "number_of_patches_code ?img1 = Some 1"
    by simp
  have h7: "ends_in_sample_block float32 (fst (fromfile ?f1 byte_patch_header_dtype 1))
              (snd (fromfile ?f1 byte_patch_header_dtype 1))"
    by code_simp
  show ?thesis
    by (rule truncated_sample_block
        [where fs = "[''a.sw4img'' \<mapsto> butlast (example_stream 0)]" and name = "''a.sw4img''",
         OF example_name h2 h3 h4 h5 h6 h7])
qed

subsection \<open>An unknown precision code\<close>

lemma read_patches_loop_unknown_precision:
  "Image_precision self = Inl e \<Longrightarrow> hs \<noteq> [] \<Longrightarrow> read_patches_loop val self hs f = Inl e"
  by (cases hs) (auto simp: read_patch_def Let_def split: prod.splits)

text \<open>
  C6, as the code has it: a file is opened and its image header read; the precision code
  is neither 4 nor 8. Then \<^verbatim>\<open>read_SW4_image\<close> raises \<^verbatim>\<open>KeyError\<close> exactly
  when at least one patch header is read, and it does so at the first sample block, after
  the patch headers were read; when no patch header is read (the patch count is 0, or no
  complete patch header is left in the file), it returns the image, without patches.
\<close>

theorem unknown_precision_code:
  assumes "name \<noteq> ''random''"
      and "fs name = Some f"
      and "Image_init rif tbl carg stf = Inr (img0, evs0)"
      and "Image_read_header hdt (img0\<lparr>filename := Some name\<rparr>) f = Inr (img1, f1)"
      and "precision_code img1 = Some c"
      and "c \<noteq> 4" and "c \<noteq> 8"
      and "number_of_patches_code img1 = Some n"
  shows "read_SW4_image rif tbl hdt pdt fs val rnd (Some name) carg stf =
           (if fst (fromfile f1 pdt n) = []
            then Inr (img1,
                      evs0 @ (if endswith name ''.sw4img'' then []
                              else [Uncommon_extension_warning name]) @ [Opened name])
            else Inl KeyError)"
proof -
  have prec: "Image_precision img1 = Inl KeyError"
    using assms(5,6,7) by (simp add: Image_precision_def SW4_IMAGE_PRECISION_def)
  obtain hs f2 where ff: "fromfile f1 pdt n = (hs, f2)" by (cases "fromfile f1 pdt n")
  have "Image_read_patches val pdt img1 f1 =
          (if hs = [] then Inr (img1, f2) else Inl KeyError)"
  proof (cases "hs = []")
    case True
    with assms(8) ff show ?thesis by (simp add: Image_read_patches_def)
  next
    case False
    then have "enumerate 0 hs \<noteq> []"
      by (metis length_enumerate length_0_conv)
    from read_patches_loop_unknown_precision [OF prec this] False assms(8) ff
    show ?thesis by (simp add: Image_read_patches_def)
  qed
  with assms(1-4) ff show ?thesis
    by (simp add: read_SW4_image_def Let_def)
qed

lemma example_header_read_precision_5:
  "Image_read_header byte_image_header_dtype
     ((new_image None)\<lparr>mode_dict := Some SW4_IMAGE_MODE_DISPLACEMENT,
                         filename := Some ''a.sw4img''\<rparr>)
     ([5, 1, 0, 0, 0, 1, 0, 0] @ [2, 5, 1, 3, 1, 2])
   = Inr ((new_image None)
            \<lparr>mode_dict := Some SW4_IMAGE_MODE_DISPLACEMENT, filename := Some ''a.sw4img'',
             precision_code := Some 5, number_of_patches_code := Some 1, time := Some 0,
             plane_code := Some 0, coordinate := Some 0, mode_code := Some 1,
             gridinfo := Some 0, creation_time := Some [0]\<rparr>,
          [2, 5, 1, 3, 1, 2])"
  by code_simp

theorem unknown_precision_code_witness:
  "read_SW4_image example_read_input_file example_stf_table byte_image_header_dtype
       byte_patch_header_dtype
     [''a.sw4img'' \<mapsto> [5, 1, 0, 0, 0, 1, 0, 0] @ [2, 5, 1, 3, 1, 2]] example_value []
     (Some ''a.sw4img'') None (Some ''displacement'') = Inl KeyError"
proof -
  let ?img0 = "(new_image None)\<lparr>mode_dict := Some SW4_IMAGE_MODE_DISPLACEMENT\<rparr>"
  let ?img1 = "(new_image None)
            \<lparr>mode_dict := Some SW4_IMAGE_MODE_DISPLACEMENT, filename := Some ''a.sw4img'',
             precision_code := Some 5, number_of_patches_code := Some 1, time := Some 0,
             plane_code := Some 0, coordinate := Some 0, mode_code := Some 1,
             gridinfo := Some 0, creation_time := Some [0]\<rparr>"
  let ?f = "[5, 1, 0, 0, 0, 1, 0, 0] @ [2, 5, 1, 3, 1, 2] :: byte list"
  have h2: "[''a.sw4img'' \<mapsto> ?f] ''a.sw4img'' = Some ?f"
    by simp
  have h3: "Image_init example_read_input_file example_stf_table None (Some ''displacement'') = Inr (?img0, [])"
    by (simp add: Image_init_def truthy_def)
  have h4: "Image_read_header byte_image_header_dtype (?img0\<lparr>filename := Some ''a.sw4img''\<rparr>)
              ?f = Inr (?img1, [2, 5, 1, 3, 1, 2])"
    using example_header_read_precision_5 by simp
  have h5: "precision_code ?img1 = Some 5" by simp
  have h6: "(5::int) \<noteq> 4" "(5::int) \<noteq> 8" by simp_all
  have h7: "number_of_patches_code ?img1 = Some 1" by simp
  have ne: "fst (fromfile [2, 5, 1, 3, 1, 2] byte_patch_header_dtype 1) \<noteq> []"
    by code_simp
  from unknown_precision_code
      [where fs = "[''a.sw4img'' \<mapsto> ?f]" and name = "''a.sw4img''"
         and pdt = byte_patch_header_dtype and rnd = "[]",
       OF example_name h2 h3 h4 h5 h6 h7] ne
  show ?thesis by simp
qed

text \<open>C6 as the claim states it fails: with the precision code 5 and the patch count 0,
  the file is read without an exception and the image is returned.\<close>

theorem unknown_precision_accepted_counterexample:
  "read_SW4_image example_read_input_file example_stf_table byte_image_header_dtype
       byte_patch_header_dtype
     [''a.sw4img'' \<mapsto> [5, 0, 0, 0, 0, 1, 0, 0]] example_value []
     (Some ''a.sw4img'') None
     (Some ''displacement'')
   = Inr (\<lparr>patches = [], config = None, mode_dict = Some SW4_IMAGE_MODE_DISPLACEMENT,
           filename = Some ''a.sw4img'', precision_code = Some 5,
           number_of_patches_code = Some 0, time = Some 0,
           plane_code = Some 0, coordinate = Some 0, mode_code = Some 1,
           gridinfo = Some 0, creation_time = Some [0]\<rparr>,
          [Opened ''a.sw4img''])"
  by (simp add: eval_defs)

subsection \<open>Reading the patch headers\<close>

lemma fromfile_count_0: "fst (fromfile f dt 0) = []"
  by (simp add: fromfile_def Let_def)

lemma read_patch_bad_dimensions:
  assumes "nii = 0 \<or> njj = 0 \<or> (nii < 0 \<and> njj < 0)"
  shows "\<exists>e. read_patch val self (i, hh, zz, ibb, nii, jbb, njj) g = Inl e"
proof (cases "read_patch val self (i, hh, zz, ibb, nii, jbb, njj) g")
  case (Inl e)
  then show ?thesis by blast
next
  case (Inr r)
  obtain p f' where r: "r = (p, f')" by (cases r)
  have "read_patch val self (i, hh, zz, ibb, nii, jbb, njj) g = Inr (p, f')"
    using Inr r by simp
  from read_patch_Inr [OF this] obtain dt and arr :: "sample ndarray" where
    ff: "fromfile g dt (nii * njj) = (flat arr, f')" and
    rs: "reshape (flat arr) njj nii = Inr arr" and
    ne: "flat arr \<noteq> []"
    by blast
  from assms show ?thesis
  proof (elim disjE)
    assume "nii = 0"
    with ff have "flat arr = fst (fromfile g dt 0)" by (metis fst_conv mult_zero_left)
    with ne show ?thesis by (simp add: fromfile_count_0)
  next
    assume "njj = 0"
    with ff have "flat arr = fst (fromfile g dt 0)" by (metis fst_conv mult_zero_right)
    with ne show ?thesis by (simp add: fromfile_count_0)
  next
    assume "nii < 0 \<and> njj < 0"
    with rs show ?thesis by (simp add: reshape_def Let_def)
  qed
qed

lemma precision_error_kind: "Image_precision self = Inl e \<Longrightarrow> e = KeyError"
  by (auto simp: Image_precision_def split: option.splits)

text \<open>
  C7, as the code has it: a file is opened and its image header read, whatever its
  precision code. Reading the patch headers raises nothing and checks nothing. (1) When
  no patch header is read, whatever the patch count says, \<^verbatim>\<open>read_SW4_image\<close>
  returns the image. (2) When the patch count is not negative and fewer patch headers
  than that, but at least one, are read, it raises at a sample block. (3) When a patch
  header that was read has \<open>ni = 0\<close> or \<open>nj = 0\<close>, or both negative, it raises
  at a sample block. In (2) and (3) the exception is \<^verbatim>\<open>KeyError\<close> when the
  precision code is neither 4 nor 8, as the precision is looked up before any sample
  is read, and \<^verbatim>\<open>ValueError\<close> when it is 4 or 8.
\<close>

theorem patch_headers_unchecked:
  assumes "name \<noteq> ''random''"
      and "fs name = Some f"
      and "Image_init rif tbl carg stf = Inr (img0, evs0)"
      and "Image_read_header hdt (img0\<lparr>filename := Some name\<rparr>) f = Inr (img1, f1)"
      and "number_of_patches_code img1 = Some n"
      and "hs = fst (fromfile f1 pdt n)"
  shows "(hs = [] \<longrightarrow>
            (\<exists>evs. read_SW4_image rif tbl hdt pdt fs val rnd (Some name) carg stf = Inr (img1, evs)))
         \<and> (0 \<le> n \<and> hs \<noteq> [] \<and> length hs < nat n \<longrightarrow>
            (case Image_precision img1 of
               Inl e \<Rightarrow>
                 read_SW4_image rif tbl hdt pdt fs val rnd (Some name) carg stf = Inl KeyError
             | Inr dt \<Rightarrow>
                 (\<exists>v. read_SW4_image rif tbl hdt pdt fs val rnd (Some name) carg stf
                        = Inl (ValueError v))))
         \<and> ((\<exists>hh zz ibb nii jbb njj.
               (hh, zz, ibb, nii, jbb, njj) \<in> set hs
               \<and> (nii = 0 \<or> njj = 0 \<or> (nii < 0 \<and> njj < 0))) \<longrightarrow>
            (case Image_precision img1 of
               Inl e \<Rightarrow>
                 read_SW4_image rif tbl hdt pdt fs val rnd (Some name) carg stf = Inl KeyError
             | Inr dt \<Rightarrow>
                 (\<exists>v. read_SW4_image rif tbl hdt pdt fs val rnd (Some name) carg stf
                        = Inl (ValueError v))))"
proof -
  obtain f2 where ff: "fromfile f1 pdt n = (hs, f2)"
    using assms(6) by (cases "fromfile f1 pdt n") simp
  have rp: "Image_read_patches val pdt img1 f1 = read_patches_loop val img1 (enumerate 0 hs) f2"
    using assms(5) ff by (simp add: Image_read_patches_def)
  have top: "read_SW4_image rif tbl hdt pdt fs val rnd (Some name) carg stf =
      (case read_patches_loop val img1 (enumerate 0 hs) f2 of
         Inl e \<Rightarrow> Inl e
       | Inr (img2, f3) \<Rightarrow>
           Inr (img2, (evs0 @ (if endswith name ''.sw4img'' then []
                              else [Uncommon_extension_warning name])) @ [Opened name]))"
    using assms(1-4) rp by (simp add: read_SW4_image_def Let_def)
  let ?raises = "case Image_precision img1 of
               Inl e \<Rightarrow>
                 read_SW4_image rif tbl hdt pdt fs val rnd (Some name) carg stf = Inl KeyError
             | Inr dt \<Rightarrow>
                 (\<exists>v. read_SW4_image rif tbl hdt pdt fs val rnd (Some name) carg stf
                        = Inl (ValueError v))"
  have fails: ?raises
    if "read_patches_loop val img1 (enumerate 0 hs) f2 = Inl e" and "hs \<noteq> []" for e
  proof (cases "Image_precision img1")
    case (Inl e')
    then have k: "e' = KeyError" by (rule precision_error_kind)
    have "enumerate 0 hs \<noteq> []"
      using that(2) by (metis length_enumerate length_0_conv)
    from read_patches_loop_unknown_precision [OF Inl this, of val f2] k
    have "read_patches_loop val img1 (enumerate 0 hs) f2 = Inl KeyError" by simp
    with top Inl show ?thesis by simp
  next
    case (Inr dt)
    from read_patches_loop_error_kind [OF Inr that(1)] obtain v where "e = ValueError v"
      by blast
    with that(1) top Inr show ?thesis by simp
  qed
  have part1: "\<exists>evs. read_SW4_image rif tbl hdt pdt fs val rnd (Some name) carg stf = Inr (img1, evs)"
    if "hs = []"
    using that top by simp
  have part2: ?raises
    if A: "0 \<le> n \<and> hs \<noteq> [] \<and> length hs < nat n"
  proof -
    have "snd (fromfile f1 pdt n) = []"
      using A ff fromfile_short_rest [of n f1 pdt] by simp
    with ff have f2: "f2 = []" by simp
    have "enumerate 0 hs \<noteq> []"
      using A by (metis length_enumerate length_0_conv)
    from read_patches_loop_at_end [OF this, of val img1] f2 obtain e where
      "read_patches_loop val img1 (enumerate 0 hs) f2 = Inl e"
      by blast
    moreover have "hs \<noteq> []" using A by simp
    ultimately show ?thesis by (rule fails)
  qed
  have part3: ?raises
    if B: "\<exists>hh zz ibb nii jbb njj.
               (hh, zz, ibb, nii, jbb, njj) \<in> set hs
               \<and> (nii = 0 \<or> njj = 0 \<or> (nii < 0 \<and> njj < 0))"
  proof -
    from B obtain hh zz ibb nii jbb njj where
      mem: "(hh, zz, ibb, nii, jbb, njj) \<in> set hs" and
      bad: "nii = 0 \<or> njj = 0 \<or> (nii < 0 \<and> njj < 0)"
      by blast
    from mem obtain k where k: "k < length hs" "hs ! k = (hh, zz, ibb, nii, jbb, njj)"
      by (auto simp: in_set_conv_nth)
    then have "(k, hh, zz, ibb, nii, jbb, njj) \<in> set (enumerate 0 hs)"
      by (simp add: in_set_enumerate_eq)
    moreover have "\<exists>e. read_patch val img1 (k, hh, zz, ibb, nii, jbb, njj) g = Inl e" for g
      using bad by (rule read_patch_bad_dimensions)
    ultimately obtain e where "read_patches_loop val img1 (enumerate 0 hs) f2 = Inl e"
      using read_patches_loop_member_fails by blast
    moreover have "hs \<noteq> []" using mem by auto
    ultimately show ?thesis by (rule fails)
  qed
  from part1 part2 part3 show ?thesis by blast
qed

theorem patch_headers_unchecked_witness:
  "(\<exists>evs. read_SW4_image example_read_input_file example_stf_table byte_image_header_dtype
       byte_patch_header_dtype
            [''a.sw4img'' \<mapsto> [4, 3, 0, 0, 0, 1, 0, 0]] example_value []
     (Some ''a.sw4img'') None
            (Some ''displacement'')
          = Inr ((new_image None)
                   \<lparr>mode_dict := Some SW4_IMAGE_MODE_DISPLACEMENT,
                    filename := Some ''a.sw4img'', precision_code := Some 4,
                    number_of_patches_code := Some 3, time := Some 0,
                    plane_code := Some 0, coordinate := Some 0, mode_code := Some 1,
                    gridinfo := Some 0, creation_time := Some [0]\<rparr>, evs))
   \<and> (\<exists>v. read_SW4_image example_read_input_file example_stf_table byte_image_header_dtype
       byte_patch_header_dtype
            [''a.sw4img'' \<mapsto> [4, 2, 0, 0, 0, 1, 0, 0] @ [2, 5, 1, 3, 1, 2]] example_value []
     (Some ''a.sw4img'') None (Some ''displacement'')
          = Inl (ValueError v))
   \<and> (\<exists>v. read_SW4_image example_read_input_file example_stf_table byte_image_header_dtype
       byte_patch_header_dtype
            [''a.sw4img'' \<mapsto> [4, 1, 0, 0, 0, 1, 0, 0] @ [2, 5, 1, 0, 1, 2]] example_value []
     (Some ''a.sw4img'') None (Some ''displacement'')
          = Inl (ValueError v))
   \<and> read_SW4_image example_read_input_file example_stf_table byte_image_header_dtype
       byte_patch_header_dtype
            [''a.sw4img'' \<mapsto> [5, 1, 0, 0, 0, 1, 0, 0] @ [2, 5, 1, 0, 1, 2]] example_value []
     (Some ''a.sw4img'') None (Some ''displacement'')
          = Inl KeyError"
proof -
  let ?start = "(new_image None)\<lparr>mode_dict := Some SW4_IMAGE_MODE_DISPLACEMENT\<rparr>"
  let ?after = "\<lambda>n. (new_image None)
                   \<lparr>mode_dict := Some SW4_IMAGE_MODE_DISPLACEMENT,
                    filename := Some ''a.sw4img'', precision_code := Some 4,
                    number_of_patches_code := Some n, time := Some 0,
                    plane_code := Some 0, coordinate := Some 0, mode_code := Some 1,
                    gridinfo := Some 0, creation_time := Some [0]\<rparr>"
  let ?fa = "[4, 3, 0, 0, 0, 1, 0, 0] :: byte list"
  let ?fb = "[4, 2, 0, 0, 0, 1, 0, 0] @ [2, 5, 1, 3, 1, 2] :: byte list"
  let ?fc = "[4, 1, 0, 0, 0, 1, 0, 0] @ [2, 5, 1, 0, 1, 2] :: byte list"
  let ?fd = "[5, 1, 0, 0, 0, 1, 0, 0] @ [2, 5, 1, 0, 1, 2] :: byte list"
  let ?after5 = "(new_image None)
                   \<lparr>mode_dict := Some SW4_IMAGE_MODE_DISPLACEMENT,
                    filename := Some ''a.sw4img'', precision_code := Some 5,
                    number_of_patches_code := Some 1, time := Some 0,
                    plane_code := Some 0, coordinate := Some 0, mode_code := Some 1,
                    gridinfo := Some 0, creation_time := Some [0]\<rparr>"
  have init: "Image_init example_read_input_file example_stf_table None (Some ''displacement'') = Inr (?start, [])"
    by (simp add: Image_init_def parse_config_def truthy_def)
  have prec5: "Image_precision ?after5 = Inl KeyError"
    by (simp add: Image_precision_def SW4_IMAGE_PRECISION_def)
  have cnt5: "number_of_patches_code ?after5 = Some 1"
    by simp
  have hd: "Image_read_header byte_image_header_dtype (?start\<lparr>filename := Some ''a.sw4img''\<rparr>)
              ?fd = Inr (?after5, [2, 5, 1, 0, 1, 2])"
    by code_simp
  have prec: "Image_precision (?after n) = Inr float32" for n
    by (simp add: Image_precision_def SW4_IMAGE_PRECISION_def)
  have cnt: "number_of_patches_code (?after n) = Some n" for n
    by simp
  have ha: "Image_read_header byte_image_header_dtype (?start\<lparr>filename := Some ''a.sw4img''\<rparr>)
              ?fa = Inr (?after 3, [])"
    by code_simp
  have hb: "Image_read_header byte_image_header_dtype (?start\<lparr>filename := Some ''a.sw4img''\<rparr>)
              ?fb = Inr (?after 2, [2, 5, 1, 3, 1, 2])"
    by code_simp
  have hc: "Image_read_header byte_image_header_dtype (?start\<lparr>filename := Some ''a.sw4img''\<rparr>)
              ?fc = Inr (?after 1, [2, 5, 1, 0, 1, 2])"
    by code_simp
  have hsa: "fst (fromfile [] byte_patch_header_dtype 3) = []"
    by (simp add: fromfile_Nil)
  have hsb: "fst (fromfile [2, 5, 1, 3, 1, 2] byte_patch_header_dtype 2) = [(2, 5, 1, 3, 1, 2)]"
    by code_simp
  have hsc: "fst (fromfile [2, 5, 1, 0, 1, 2] byte_patch_header_dtype 1) = [(2, 5, 1, 0, 1, 2)]"
    by code_simp
  have a: "\<exists>evs. read_SW4_image example_read_input_file example_stf_table byte_image_header_dtype
       byte_patch_header_dtype [''a.sw4img'' \<mapsto> ?fa] example_value []
     (Some ''a.sw4img'') None
             (Some ''displacement'') = Inr (?after 3, evs)"
    using patch_headers_unchecked
      [where fs = "[''a.sw4img'' \<mapsto> ?fa]" and name = "''a.sw4img''" and f = ?fa
         and pdt = byte_patch_header_dtype and rnd = "[]" and hs = "[]",
       OF example_name _ init ha cnt] hsa prec [of 3]
    by simp
  have b: "\<exists>v. read_SW4_image example_read_input_file example_stf_table byte_image_header_dtype
       byte_patch_header_dtype [''a.sw4img'' \<mapsto> ?fb] example_value []
     (Some ''a.sw4img'') None
             (Some ''displacement'') = Inl (ValueError v)"
    using patch_headers_unchecked
      [where fs = "[''a.sw4img'' \<mapsto> ?fb]" and name = "''a.sw4img''" and f = ?fb
         and pdt = byte_patch_header_dtype and rnd = "[]" and hs = "[(2, 5, 1, 3, 1, 2)]",
       OF example_name _ init hb cnt] hsb prec [of 2]
    by simp
  have c: "\<exists>v. read_SW4_image example_read_input_file example_stf_table byte_image_header_dtype
       byte_patch_header_dtype [''a.sw4img'' \<mapsto> ?fc] example_value []
     (Some ''a.sw4img'') None
             (Some ''displacement'') = Inl (ValueError v)"
    using patch_headers_unchecked
      [where fs = "[''a.sw4img'' \<mapsto> ?fc]" and name = "''a.sw4img''" and f = ?fc
         and pdt = byte_patch_header_dtype and rnd = "[]" and hs = "[(2, 5, 1, 0, 1, 2)]",
       OF example_name _ init hc cnt] hsc prec [of 1]
    by simp
  have d: "read_SW4_image example_read_input_file example_stf_table byte_image_header_dtype
       byte_patch_header_dtype [''a.sw4img'' \<mapsto> ?fd] example_value []
     (Some ''a.sw4img'') None
             (Some ''displacement'') = Inl KeyError"
    using patch_headers_unchecked
      [where fs = "[''a.sw4img'' \<mapsto> ?fd]" and name = "''a.sw4img''" and f = ?fd
         and pdt = byte_patch_header_dtype and rnd = "[]" and hs = "[(2, 5, 1, 0, 1, 2)]",
       OF example_name _ init hd cnt5] hsc prec5
    by simp
  from a b c d show ?thesis by blast
qed

text \<open>
  C7 as the claim states it fails. A file that ends after an image header with the patch
  count -1 is read without an exception. So is a file with one patch whose \<open>ni\<close> is -1
  and whose \<open>nj\<close> is 1, followed by two samples: the negative dimension is inferred
  by \<^verbatim>\<open>reshape\<close> and the patch is kept.
\<close>

theorem patch_headers_unchecked_counterexample:
  "read_SW4_image example_read_input_file example_stf_table byte_image_header_dtype
       byte_patch_header_dtype
     [''a.sw4img'' \<mapsto> [4, 255, 0, 0, 0, 1, 0, 0]] example_value []
     (Some ''a.sw4img'') None
     (Some ''displacement'')
   = Inr (\<lparr>patches = [], config = None, mode_dict = Some SW4_IMAGE_MODE_DISPLACEMENT,
           filename = Some ''a.sw4img'', precision_code = Some 4,
           number_of_patches_code = Some (- 1), time = Some 0,
           plane_code = Some 0, coordinate = Some 0, mode_code = Some 1,
           gridinfo = Some 0, creation_time = Some [0]\<rparr>,
          [Opened ''a.sw4img''])
   \<and> read_SW4_image example_read_input_file example_stf_table byte_image_header_dtype
       byte_patch_header_dtype
     [''a.sw4img'' \<mapsto> [4, 1, 0, 0, 0, 1, 0, 0] @ [2, 5, 1, 255, 1, 1]
                          @ [1, 1, 1, 1, 2, 2, 2, 2]] example_value []
     (Some ''a.sw4img'') None (Some ''displacement'')
   = Inr (\<lparr>patches =
             [\<lparr>number = Some 0, h = Some 2, zmin = Some 5, ib = Some 1,
               ni = Some (- 1), jb = Some 1, nj = Some 1,
               data = Some \<lparr>shape = (1, 2), flat = [[1, 1, 1, 1], [2, 2, 2, 2]]\<rparr>,
               extent = Some (- 1, - 3, 4, 6),
               patch_min = Some 1, patch_max = Some 2,
               patch_std = Some (sqrt (1 / 4)), patch_rms = Some (sqrt (5 / 2))\<rparr>],
           config = None, mode_dict = Some SW4_IMAGE_MODE_DISPLACEMENT,
           filename = Some ''a.sw4img'', precision_code = Some 4,
           number_of_patches_code = Some 1, time = Some 0,
           plane_code = Some 0, coordinate = Some 0, mode_code = Some 1,
           gridinfo = Some 0, creation_time = Some [0]\<rparr>,
          [Opened ''a.sw4img''])"
  by (simp add: eval_defs)

subsection \<open>The statistics of a patch\<close>








end
